theory Spec2Isabelle
  imports Main "HOL-Library.Word"
begin

unbundle bit_operations_syntax

section \<open>JavaScript values used by the adapter\<close>

text \<open>
  A thrown or rejected value. The adapter itself only throws \<open>new Error(message)\<close>;
  resolvers and the libraries it calls may throw or reject with values of their own.
\<close>

datatype error = Error string

text \<open>
  An optional string (\<open>string | undefined\<close>, and \<open>null\<close> after \<open>|| null\<close>) is a
  \<open>string option\<close>. JavaScript treats \<open>undefined\<close>, \<open>null\<close> and the empty string as
  falsy and every other string as truthy.
\<close>

definition truthy :: "string option \<Rightarrow> bool" where
  "truthy v = (case v of None \<Rightarrow> False | Some s \<Rightarrow> s \<noteq> [])"

text \<open>The operator \<open>a || b\<close> on optional strings.\<close>

definition js_or :: "string option \<Rightarrow> string option \<Rightarrow> string option" where
  "js_or a b = (if truthy a then a else b)"

text \<open>Interpolation \<open>`${v}`\<close> of an optional string in a template literal.\<close>

definition interpolate :: "string option \<Rightarrow> string" where
  "interpolate v = (case v of None \<Rightarrow> ''undefined'' | Some s \<Rightarrow> s)"

text \<open>
  Interpolation of an integral number: its decimal digits, with a leading minus sign when
  negative. (\<open>Date.now()\<close> returns an integral number, printed without an exponent
  below \<open>10^21\<close>.)
\<close>

definition digit :: "nat \<Rightarrow> char" where
  "digit d = ''0123456789'' ! d"

fun decimal :: "nat \<Rightarrow> string" where
  "decimal n = (if n < 10 then [digit n] else decimal (n div 10) @ [digit (n mod 10)])"

declare decimal.simps [simp del]

definition number_to_string :: "int \<Rightarrow> string" where
  "number_to_string i = (if i < 0 then CHR ''-'' # decimal (nat (- i)) else decimal (nat i))"

text \<open>
  The numbers an option can hold: the integral ones (\<open>Num i\<close> is the double equal to
  \<open>i\<close>), \<open>NaN\<close> and the two infinities. Fractional numbers go through
  floating-point rounding and are not represented.
\<close>

datatype number = Num int | NaN | PosInfinity | NegInfinity

text \<open>\<open>n <= 0\<close>, and the truthiness of a number.\<close>

definition number_le_zero :: "number \<Rightarrow> bool" where
  "number_le_zero n =
     (case n of Num i \<Rightarrow> i \<le> 0 | NaN \<Rightarrow> False | PosInfinity \<Rightarrow> False | NegInfinity \<Rightarrow> True)"

definition number_truthy :: "number \<Rightarrow> bool" where
  "number_truthy n =
     (case n of Num i \<Rightarrow> i \<noteq> 0 | NaN \<Rightarrow> False | PosInfinity \<Rightarrow> True | NegInfinity \<Rightarrow> True)"

text \<open>
  \<open>now + n * 60 * 1000\<close> for a clock reading \<open>now\<close>, which is an integral time
  value (at most \<open>8.64e15\<close> in magnitude). For such a reading and an integral \<open>n\<close>
  the double arithmetic is exact wherever the exact sum is at most \<open>8.64e15\<close> in
  magnitude, and gives a number beyond that bound wherever the exact sum lies beyond it.
\<close>

definition minutes_after :: "int \<Rightarrow> number \<Rightarrow> number" where
  "minutes_after now n =
     (case n of
        Num i \<Rightarrow> Num (now + i * 60 * 1000)
      | NaN \<Rightarrow> NaN
      | PosInfinity \<Rightarrow> PosInfinity
      | NegInfinity \<Rightarrow> NegInfinity)"

text \<open>
  \<open>new Date(value)\<close>: a time value of at most \<open>8.64e15\<close> milliseconds from the epoch
  in either direction, or an invalid date.
\<close>

datatype date = ValidDate int | InvalidDate

definition new_Date :: "number \<Rightarrow> date" where
  "new_Date n =
     (case n of
        Num t \<Rightarrow> if \<bar>t\<bar> \<le> 8640000000000000 then ValidDate t else InvalidDate
      | NaN \<Rightarrow> InvalidDate
      | PosInfinity \<Rightarrow> InvalidDate
      | NegInfinity \<Rightarrow> InvalidDate)"

text \<open>The values a property of a file object can hold.\<close>

datatype js_value =
    JUndefined
  | JNull
  | JBoolean bool
  | JNumber int
  | JString string
  | JBytes "nat list"

section \<open>\<open>path.extname\<close>\<close>

text \<open>
  The POSIX \<open>extname\<close> of Node's \<open>path\<close> module, a library of the platform: one scan
  from the end of the string, with the variables of its loop. \<open>-1\<close> for ``no index yet''
  is \<open>None\<close>.
\<close>

record extname_state =
  startDot :: "nat option"
  startPart :: nat
  endIdx :: "nat option"
  matchedSlash :: bool
  preDotState :: int

definition extname_init :: extname_state where
  "extname_init =
     \<lparr>startDot = None, startPart = 0, endIdx = None, matchedSlash = True, preDotState = 0\<rparr>"

text \<open>The body of the loop for a character that is not a slash.\<close>

definition extname_step :: "string \<Rightarrow> nat \<Rightarrow> extname_state \<Rightarrow> extname_state" where
  "extname_step path i st =
     (let st1 = (if endIdx st = None then st\<lparr>matchedSlash := False, endIdx := Some (i + 1)\<rparr>
                 else st)
      in if path ! i = CHR ''.'' then
           (if startDot st1 = None then st1\<lparr>startDot := Some i\<rparr>
            else if preDotState st1 \<noteq> 1 then st1\<lparr>preDotState := 1\<rparr>
            else st1)
         else if startDot st1 \<noteq> None then st1\<lparr>preDotState := - 1\<rparr>
         else st1)"

text \<open>
  \<open>extname_loop path n\<close> runs the loop for the indices \<open>n - 1\<close> down to \<open>0\<close>; a slash
  after the first other character ends it (\<open>break\<close>).
\<close>

fun extname_loop :: "string \<Rightarrow> nat \<Rightarrow> extname_state \<Rightarrow> extname_state" where
  "extname_loop path 0 st = st"
| "extname_loop path (Suc i) st =
     (if path ! i = CHR ''/'' then
        (if \<not> matchedSlash st then st\<lparr>startPart := i + 1\<rparr>
         else extname_loop path i st)
      else extname_loop path i (extname_step path i st))"

definition extname :: "string \<Rightarrow> string" where
  "extname path =
     (let st = extname_loop path (length path) extname_init
      in case (startDot st, endIdx st) of
           (Some d, Some e) \<Rightarrow>
             if preDotState st = 0 \<or>
                (preDotState st = 1 \<and> d = e - 1 \<and> d = startPart st + 1)
             then []
             else take (e - d) (drop d path)
         | _ \<Rightarrow> [])"

section \<open>\<open>uuid.v4\<close>\<close>

text \<open>
  The \<open>v4\<close> of the \<open>uuid\<close> library, from the sixteen random bytes the platform
  supplies: the version and variant bits are set and the bytes printed in hexadecimal,
  grouped by hyphens.
\<close>

definition hexdigit :: "nat \<Rightarrow> char" where
  "hexdigit d = ''0123456789abcdef'' ! d"

definition byteToHex :: "8 word \<Rightarrow> string" where
  "byteToHex b = [hexdigit (unat b div 16), hexdigit (unat b mod 16)]"

definition unsafeStringify :: "(nat \<Rightarrow> 8 word) \<Rightarrow> string" where
  "unsafeStringify arr =
     byteToHex (arr 0) @ byteToHex (arr 1) @ byteToHex (arr 2) @ byteToHex (arr 3) @ ''-'' @
     byteToHex (arr 4) @ byteToHex (arr 5) @ ''-'' @
     byteToHex (arr 6) @ byteToHex (arr 7) @ ''-'' @
     byteToHex (arr 8) @ byteToHex (arr 9) @ ''-'' @
     byteToHex (arr 10) @ byteToHex (arr 11) @ byteToHex (arr 12) @ byteToHex (arr 13) @
     byteToHex (arr 14) @ byteToHex (arr 15)"

definition v4_bytes :: "(nat \<Rightarrow> 8 word) \<Rightarrow> nat \<Rightarrow> 8 word" where
  "v4_bytes rnds =
     (let rnds1 = rnds(6 := (rnds 6 AND 0x0f) OR 0x40);
          rnds2 = rnds1(8 := (rnds1 8 AND 0x3f) OR 0x80)
      in rnds2)"

section \<open>Custom types of the module\<close>

record MASContentSettings =
  cacheControl :: "string option"
  contentType :: "string option"
  contentMD5 :: "nat list option"
  contentEncoding :: "string option"
  contentLanguage :: "string option"
  contentDisposition :: "string option"

type_synonym MASMetadata = "string \<rightharpoonup> string"

datatype MASContainerAccessLevel = PublicContainer | PublicBlob | Private

text \<open>
  \<open>Express.Multer.File\<close>, as an object: \<open>originalname\<close>, \<open>mimetype\<close> and \<open>stream\<close>
  are the values of the three properties the adapter reads, \<open>other\<close> holds the further
  own properties (fieldname, encoding, ...), and \<open>nonenumerable\<close> names the own
  properties that are not enumerable. Multer defines \<open>stream\<close> as a non-enumerable
  property of the file it hands to a storage engine.
\<close>

record File =
  originalname :: string
  mimetype :: string
  stream :: "nat list"
  other :: "string \<rightharpoonup> js_value"
  nonenumerable :: "string set"

text \<open>The own properties of a file, by key.\<close>

definition own_properties :: "File \<Rightarrow> string \<rightharpoonup> js_value" where
  "own_properties file =
     (other file)
       (''originalname'' \<mapsto> JString (originalname file),
        ''mimetype'' \<mapsto> JString (mimetype file),
        ''stream'' \<mapsto> JBytes (stream file))"

text \<open>What the spread \<open>...file\<close> copies: the own properties that are enumerable.\<close>

definition spread :: "File \<Rightarrow> string \<rightharpoonup> js_value" where
  "spread file = (\<lambda>k. if k \<in> nonenumerable file then None else own_properties file k)"

text \<open>
  A resolver \<open>(req, file) => Promise<T>\<close> is asynchronous user code: run in a world
  \<open>'w\<close> (clock, random source, storage service, anything else it touches) it settles to
  a rejection or a value and leaves a new world.
\<close>

type_synonym ('r, 'w, 'a) MASResolverFunction =
  "'r \<Rightarrow> File \<Rightarrow> 'w \<Rightarrow> (error + 'a) \<times> 'w"

text \<open>A configuration value of type \<open>T | MASResolverFunction<T>\<close>.\<close>

datatype ('a, 'f) value_or_function = Static 'a | Function 'f

text \<open>
  The object the store operation returns, \<open>{...file, url: ..., ...}\<close>: \<open>copied\<close> holds
  the properties that come from the spread, by key, and the seven fields are the keys
  written after it. A key written after the spread replaces a copied property of the
  same name, so \<open>copied\<close> holds none of the seven names.
\<close>

record MulterOutFile =
  copied :: "string \<rightharpoonup> js_value"
  url :: string
  etag :: "string option"
  metadata :: "MASMetadata option"
  containerName :: string
  blobName :: string
  blobType :: "string option"
  blobSize :: "int option"

definition added_keys :: "string set" where
  "added_keys =
     {''url'', ''etag'', ''metadata'', ''containerName'', ''blobName'', ''blobType'',
      ''blobSize''}"

text \<open>\<open>urlExpirationTime?: number | false\<close>, with the \<open>null\<close> the constructor also tests for.\<close>

datatype url_expiration = UrlUndefined | UrlNull | UrlFalse | UrlNumber number

record ('r, 'w) IMASOptions =
  accessKey :: "string option"
  accountName :: "string option"
  connectionString :: "string option"
  urlExpirationTime :: url_expiration
  blobName :: "('r, 'w, string) MASResolverFunction option"
  containerName ::
    "(string, ('r, 'w, string) MASResolverFunction) value_or_function option"
  autoCreateContainer :: "bool option"
  metadata ::
    "(MASMetadata, ('r, 'w, MASMetadata) MASResolverFunction) value_or_function option"
  contentSettings ::
    "(MASContentSettings, ('r, 'w, MASContentSettings) MASResolverFunction)
       value_or_function option"
  containerAccessLevel :: "MASContainerAccessLevel option"

text \<open>The three variables of \<open>process.env\<close> the constructor reads.\<close>

record process_env =
  AZURE_STORAGE_CONNECTION_STRING :: "string option"
  AZURE_STORAGE_ACCESS_KEY :: "string option"
  AZURE_STORAGE_ACCOUNT :: "string option"

section \<open>The storage client library\<close>

text \<open>
  The library is outside the repository. A client object is represented by the
  constructor call that built it, and a request by the arguments it is given. Whether a
  constructor call throws, and what each request is answered, is the platform's.
\<close>

datatype StorageSharedKeyCredential = StorageSharedKeyCredential string string

datatype BlobServiceClient =
    fromConnectionString string
  | BlobServiceClient string StorageSharedKeyCredential

record ContainerClient =
  serviceClient :: BlobServiceClient
  container :: string

record BlockBlobClient =
  containerClient :: ContainerClient
  blob :: string

definition getContainerClient :: "BlobServiceClient \<Rightarrow> string \<Rightarrow> ContainerClient" where
  "getContainerClient c n = \<lparr>serviceClient = c, container = n\<rparr>"

definition getBlockBlobClient :: "ContainerClient \<Rightarrow> string \<Rightarrow> BlockBlobClient" where
  "getBlockBlobClient c n = \<lparr>containerClient = c, blob = n\<rparr>"

record BlobHTTPHeaders =
  blobCacheControl :: "string option"
  blobContentType :: "string option"
  blobContentMD5 :: "nat list option"
  blobContentEncoding :: "string option"
  blobContentLanguage :: "string option"
  blobContentDisposition :: "string option"

record upload_options =
  upload_metadata :: "MASMetadata option"
  blobHTTPHeaders :: BlobHTTPHeaders

text \<open>\<open>BlobSASPermissions.from\<close>, applied to the flags that are set.\<close>

datatype BlobSASPermissions = BlobSASPermissions_from "string list"

record sas_options =
  expiresOn :: "date option"
  permissions :: BlobSASPermissions

record BlobProperties =
  prop_etag :: "string option"
  prop_metadata :: "MASMetadata option"
  prop_blobType :: "string option"
  prop_contentLength :: "int option"

text \<open>The requests the adapter sends through the library, and what they are answered.\<close>

datatype sdk_call =
    CreateIfNotExists ContainerClient "MASContainerAccessLevel option"
  | UploadStream BlockBlobClient "nat list" upload_options
  | GetProperties BlockBlobClient
  | GenerateSasUrl BlockBlobClient sas_options
  | DeleteIfExists BlockBlobClient

datatype sdk_value = Done | Properties BlobProperties | SasUrl string

text \<open>
  What the module runs on: the clock, the random bytes \<open>uuid\<close> draws, and the storage
  client library with the service behind it. For each of the library's three
  constructors the platform says what a call throws, if it throws; each request settles
  to a rejection or a value and leaves a new world. Nothing is assumed about any of them.
\<close>

record 'w platform =
  Date_now :: "'w \<Rightarrow> int"
  rng :: "'w \<Rightarrow> (nat \<Rightarrow> 8 word) \<times> 'w"
  new_StorageSharedKeyCredential_throws :: "string \<Rightarrow> string \<Rightarrow> error option"
  fromConnectionString_throws :: "string \<Rightarrow> error option"
  new_BlobServiceClient_throws :: "string \<Rightarrow> StorageSharedKeyCredential \<Rightarrow> error option"
  createIfNotExists ::
    "ContainerClient \<Rightarrow> MASContainerAccessLevel option \<Rightarrow> 'w \<Rightarrow> (error + unit) \<times> 'w"
  uploadStream ::
    "BlockBlobClient \<Rightarrow> nat list \<Rightarrow> upload_options \<Rightarrow> 'w \<Rightarrow> (error + unit) \<times> 'w"
  getProperties :: "BlockBlobClient \<Rightarrow> 'w \<Rightarrow> (error + BlobProperties) \<times> 'w"
  generateSasUrl :: "BlockBlobClient \<Rightarrow> sas_options \<Rightarrow> 'w \<Rightarrow> (error + string) \<times> 'w"
  deleteIfExists :: "BlockBlobClient \<Rightarrow> 'w \<Rightarrow> (error + unit) \<times> 'w"

text \<open>\<open>v4()\<close>: draw the bytes, set the bits, print.\<close>

definition v4 :: "'w platform \<Rightarrow> 'w \<Rightarrow> string \<times> 'w" where
  "v4 p w = (case rng p w of (rnds, w') \<Rightarrow> (unsafeStringify (v4_bytes rnds), w'))"

section \<open>The adapter\<close>

definition DEFAULT_CONTAINER_ACCESS_LEVEL :: MASContainerAccessLevel where
  "DEFAULT_CONTAINER_ACCESS_LEVEL = Private"

definition DEFAULT_URL_EXPIRATION_TIME :: int where
  "DEFAULT_URL_EXPIRATION_TIME = 60"

definition promisifyValue :: "'a \<Rightarrow> ('r, 'w, 'a) MASResolverFunction" where
  "promisifyValue v = (\<lambda>req file w. (Inr v, w))"

definition promisifyOption ::
  "('a, ('r, 'w, 'a) MASResolverFunction) value_or_function
     \<Rightarrow> ('r, 'w, 'a) MASResolverFunction" where
  "promisifyOption v = (case v of Function f \<Rightarrow> f | Static a \<Rightarrow> promisifyValue a)"

definition generateBlobName :: "'w platform \<Rightarrow> ('r, 'w, string) MASResolverFunction" where
  "generateBlobName p = (\<lambda>req file w.
     (let now = Date_now p w;
          (uuid, w') = v4 p w
      in (Inr (number_to_string now @ ''-'' @ uuid @ extname (originalname file)), w')))"

record ('r, 'w) MulterAzureStorage =
  this_blobServiceClient :: BlobServiceClient
  this_blobName :: "('r, 'w, string) MASResolverFunction"
  this_urlExpirationTime :: "number option"
  this_metadata :: "('r, 'w, MASMetadata) MASResolverFunction option"
  this_contentSettings :: "('r, 'w, MASContentSettings) MASResolverFunction option"
  this_containerName :: "('r, 'w, string) MASResolverFunction"
  this_containerAccessLevel :: MASContainerAccessLevel
  this_autoCreateContainer :: bool

datatype connection = ConnectionString string | AccountKey string string

definition missing_credentials :: error where
  "missing_credentials = Error
     ''Missing required parameter: Either the connection string or account name and access key must be provided.''"

definition missing_container_name :: error where
  "missing_container_name = Error ''Missing required parameter: Azure container name.''"

text \<open>
  Truthiness of \<open>options.containerName\<close>: a function is truthy, a string is truthy unless
  empty, \<open>undefined\<close> is falsy.
\<close>

definition containerName_truthy ::
  "(string, 'f) value_or_function option \<Rightarrow> bool" where
  "containerName_truthy v =
     (case v of None \<Rightarrow> False | Some (Function f) \<Rightarrow> True | Some (Static s) \<Rightarrow> s \<noteq> [])"

text \<open>The credential lines of the constructor.\<close>

definition resolve_connection ::
  "('r, 'w) IMASOptions \<Rightarrow> process_env \<Rightarrow> connection option" where
  "resolve_connection options env =
     (let connectionString =
            js_or (js_or (connectionString options) (AZURE_STORAGE_CONNECTION_STRING env)) None;
          accessKey = js_or (js_or (accessKey options) (AZURE_STORAGE_ACCESS_KEY env)) None;
          accountName = js_or (js_or (accountName options) (AZURE_STORAGE_ACCOUNT env)) None
      in if truthy connectionString then map_option ConnectionString connectionString
         else if truthy accessKey \<and> truthy accountName then
           (case (accountName, accessKey) of
              (Some n, Some k) \<Rightarrow> Some (AccountKey n k)
            | _ \<Rightarrow> None)
         else None)"

text \<open>The expiration lines of the constructor.\<close>

definition resolve_urlExpirationTime :: "url_expiration \<Rightarrow> number option" where
  "resolve_urlExpirationTime u =
     (case u of
        UrlFalse \<Rightarrow> None
      | UrlUndefined \<Rightarrow> Some (Num DEFAULT_URL_EXPIRATION_TIME)
      | UrlNull \<Rightarrow> Some (Num DEFAULT_URL_EXPIRATION_TIME)
      | UrlNumber n \<Rightarrow>
          if number_le_zero n then Some (Num DEFAULT_URL_EXPIRATION_TIME) else Some n)"

text \<open>
  The construction of the service client, last in the constructor: the library's
  constructors are called, and what one of them throws leaves the constructor.
\<close>

definition init_blob_service ::
  "'w platform \<Rightarrow> ('r, 'w) IMASOptions \<Rightarrow> connection \<Rightarrow> error + BlobServiceClient" where
  "init_blob_service p options c =
     (case c of
        ConnectionString s \<Rightarrow>
          (case fromConnectionString_throws p s of
             Some e \<Rightarrow> Inl e
           | None \<Rightarrow> Inr (fromConnectionString s))
      | AccountKey n k \<Rightarrow>
          (case new_StorageSharedKeyCredential_throws p n k of
             Some e \<Rightarrow> Inl e
           | None \<Rightarrow>
               (let credentials = StorageSharedKeyCredential n k;
                    endpoint =
                      ''https://'' @ interpolate (accountName options) @
                      ''.blob.core.windows.net''
                in case new_BlobServiceClient_throws p endpoint credentials of
                     Some e \<Rightarrow> Inl e
                   | None \<Rightarrow> Inr (BlobServiceClient endpoint credentials))))"

definition constructor ::
  "'w platform \<Rightarrow> ('r, 'w) IMASOptions \<Rightarrow> process_env
     \<Rightarrow> error + ('r, 'w) MulterAzureStorage" where
  "constructor p options env =
     (case resolve_connection options env of
        None \<Rightarrow> Inl missing_credentials
      | Some c \<Rightarrow>
          (case containerName options of
             None \<Rightarrow> Inl missing_container_name
           | Some name \<Rightarrow>
               if \<not> containerName_truthy (containerName options)
               then Inl missing_container_name
               else
                 (case init_blob_service p options c of
                    Inl e \<Rightarrow> Inl e
                  | Inr client \<Rightarrow> Inr
                      \<lparr>this_blobServiceClient = client,
                       this_blobName =
                         (case blobName options of
                            Some f \<Rightarrow> f
                          | None \<Rightarrow> generateBlobName p),
                       this_urlExpirationTime =
                         resolve_urlExpirationTime (urlExpirationTime options),
                       this_metadata = map_option promisifyOption (metadata options),
                       this_contentSettings =
                         map_option promisifyOption (contentSettings options),
                       this_containerName = promisifyOption name,
                       this_containerAccessLevel =
                         (case containerAccessLevel options of
                            Some l \<Rightarrow> l
                          | None \<Rightarrow> DEFAULT_CONTAINER_ACCESS_LEVEL),
                       this_autoCreateContainer =
                         (case autoCreateContainer options of
                            Some b \<Rightarrow> b
                          | None \<Rightarrow> True)\<rparr>)))"

section \<open>Asynchronous operations\<close>

text \<open>
  An operation runs on the world together with a log of the requests sent so far: each
  with the clock reading at the moment it was sent and with the answer it settled to.
  \<open>await\<close> continues with the value of a fulfilled promise and stops at a rejection, as
  \<open>await\<close> in an \<open>async\<close> function does.
\<close>

type_synonym exchange = "int \<times> sdk_call \<times> (error + sdk_value)"

type_synonym 'w run = "'w \<times> exchange list"

text \<open>The requests sent during a run, oldest first.\<close>

definition sent :: "'a \<times> 'w run \<Rightarrow> exchange list" where
  "sent outcome = snd (snd outcome)"

definition await ::
  "('s \<Rightarrow> (error + 'a) \<times> 's) \<Rightarrow> ('a \<Rightarrow> 's \<Rightarrow> (error + 'b) \<times> 's)
     \<Rightarrow> 's \<Rightarrow> (error + 'b) \<times> 's" where
  "await m f = (\<lambda>s. case m s of (Inl e, s') \<Rightarrow> (Inl e, s') | (Inr x, s') \<Rightarrow> f x s')"

definition resolved :: "'a \<Rightarrow> 's \<Rightarrow> (error + 'a) \<times> 's" where
  "resolved x = (\<lambda>s. (Inr x, s))"

definition run_resolver ::
  "('r, 'w, 'a) MASResolverFunction \<Rightarrow> 'r \<Rightarrow> File
     \<Rightarrow> 'w run \<Rightarrow> (error + 'a) \<times> 'w run" where
  "run_resolver f req file = (\<lambda>(w, log). case f req file w of (r, w') \<Rightarrow> (r, (w', log)))"

definition send ::
  "'w platform \<Rightarrow> sdk_call \<Rightarrow> ('a \<Rightarrow> sdk_value) \<Rightarrow> ('w \<Rightarrow> (error + 'a) \<times> 'w)
     \<Rightarrow> 'w run \<Rightarrow> (error + 'a) \<times> 'w run" where
  "send p c wrap f =
     (\<lambda>(w, log). case f w of
        (r, w') \<Rightarrow> (r, (w', log @ [(Date_now p w, c, map_sum id wrap r)])))"

definition call_createIfNotExists ::
  "'w platform \<Rightarrow> ContainerClient \<Rightarrow> MASContainerAccessLevel option
     \<Rightarrow> 'w run \<Rightarrow> (error + unit) \<times> 'w run" where
  "call_createIfNotExists p c a = send p (CreateIfNotExists c a) (\<lambda>_. Done) (createIfNotExists p c a)"

definition call_uploadStream ::
  "'w platform \<Rightarrow> BlockBlobClient \<Rightarrow> nat list \<Rightarrow> upload_options
     \<Rightarrow> 'w run \<Rightarrow> (error + unit) \<times> 'w run" where
  "call_uploadStream p b s opts = send p (UploadStream b s opts) (\<lambda>_. Done) (uploadStream p b s opts)"

definition call_getProperties ::
  "'w platform \<Rightarrow> BlockBlobClient \<Rightarrow> 'w run \<Rightarrow> (error + BlobProperties) \<times> 'w run" where
  "call_getProperties p b = send p (GetProperties b) Properties (getProperties p b)"

definition call_generateSasUrl ::
  "'w platform \<Rightarrow> BlockBlobClient \<Rightarrow> sas_options
     \<Rightarrow> 'w run \<Rightarrow> (error + string) \<times> 'w run" where
  "call_generateSasUrl p b opts = send p (GenerateSasUrl b opts) SasUrl (generateSasUrl p b opts)"

definition call_deleteIfExists ::
  "'w platform \<Rightarrow> BlockBlobClient \<Rightarrow> 'w run \<Rightarrow> (error + unit) \<times> 'w run" where
  "call_deleteIfExists p b = send p (DeleteIfExists b) (\<lambda>_. Done) (deleteIfExists p b)"

definition this_getContainerClient ::
  "'w platform \<Rightarrow> ('r, 'w) MulterAzureStorage \<Rightarrow> string
     \<Rightarrow> 'w run \<Rightarrow> (error + ContainerClient) \<times> 'w run" where
  "this_getContainerClient p this name =
     (let containerClient = getContainerClient (this_blobServiceClient this) name
      in if this_autoCreateContainer this then
           (let publicAccessLevel =
                  (if this_containerAccessLevel this = Private then None
                   else Some (this_containerAccessLevel this))
            in await (call_createIfNotExists p containerClient publicAccessLevel)
                 (\<lambda>_. resolved containerClient))
         else resolved containerClient)"

text \<open>The content settings used when no resolver is configured.\<close>

definition default_contentSettings :: "File \<Rightarrow> MASContentSettings" where
  "default_contentSettings file =
     \<lparr>cacheControl = None, contentType = Some (mimetype file), contentMD5 = None,
      contentEncoding = None, contentLanguage = None, contentDisposition = Some ''inline''\<rparr>"

definition headers_of :: "MASContentSettings \<Rightarrow> BlobHTTPHeaders" where
  "headers_of cs =
     \<lparr>blobCacheControl = cacheControl cs,
      blobContentType = contentType cs,
      blobContentMD5 = contentMD5 cs,
      blobContentEncoding = contentEncoding cs,
      blobContentLanguage = contentLanguage cs,
      blobContentDisposition = contentDisposition cs\<rparr>"

text \<open>The argument of \<open>generateSasUrl\<close>, built when the clock reads \<open>now\<close>.\<close>

definition sas_request :: "('r, 'w) MulterAzureStorage \<Rightarrow> int \<Rightarrow> sas_options" where
  "sas_request this now =
     \<lparr>expiresOn =
        (case this_urlExpirationTime this of
           None \<Rightarrow> None
         | Some t \<Rightarrow>
             if number_truthy t then Some (new_Date (minutes_after now t)) else None),
      permissions = BlobSASPermissions_from [''read'']\<rparr>"

definition handleFileAsync ::
  "'w platform \<Rightarrow> ('r, 'w) MulterAzureStorage \<Rightarrow> 'r \<Rightarrow> File
     \<Rightarrow> 'w run \<Rightarrow> (error + MulterOutFile) \<times> 'w run" where
  "handleFileAsync p this req file =
     await (run_resolver (this_containerName this) req file) (\<lambda>containerName.
     await (run_resolver (this_blobName this) req file) (\<lambda>blobName.
     await (case this_contentSettings this of
              Some f \<Rightarrow> run_resolver f req file
            | None \<Rightarrow> resolved (default_contentSettings file)) (\<lambda>contentSettings.
     await (case this_metadata this of
              None \<Rightarrow> resolved None
            | Some f \<Rightarrow> await (run_resolver f req file) (\<lambda>m. resolved (Some m))) (\<lambda>metadata.
     await (this_getContainerClient p this containerName) (\<lambda>containerClient.
     (let blockBlobClient = getBlockBlobClient containerClient blobName in
     await (call_uploadStream p blockBlobClient (stream file)
              \<lparr>upload_metadata = metadata,
               blobHTTPHeaders = headers_of contentSettings\<rparr>) (\<lambda>_.
     await (call_getProperties p blockBlobClient) (\<lambda>blobProperties.
     await (\<lambda>s. call_generateSasUrl p blockBlobClient
                   (sas_request this (Date_now p (fst s))) s) (\<lambda>sasUrl.
     resolved
       \<lparr>copied = (\<lambda>k. if k \<in> added_keys then None else spread file k),
        url = sasUrl,
        etag = prop_etag blobProperties,
        metadata = prop_metadata blobProperties,
        containerName = containerName,
        blobName = blobName,
        blobType = prop_blobType blobProperties,
        blobSize = prop_contentLength blobProperties\<rparr>)))))))))"

definition removeFileAsync ::
  "'w platform \<Rightarrow> ('r, 'w) MulterAzureStorage \<Rightarrow> 'r \<Rightarrow> File
     \<Rightarrow> 'w run \<Rightarrow> (error + unit) \<times> 'w run" where
  "removeFileAsync p this req file =
     await (run_resolver (this_containerName this) req file) (\<lambda>containerName.
     await (run_resolver (this_blobName this) req file) (\<lambda>blobName.
     await (this_getContainerClient p this containerName) (\<lambda>containerClient.
     (let blockBlobClient = getBlockBlobClient containerClient blobName in
     call_deleteIfExists p blockBlobClient))))"

text \<open>The two callbacks multer calls: the arguments the completion callback receives.\<close>

definition handleFile ::
  "'w platform \<Rightarrow> ('r, 'w) MulterAzureStorage \<Rightarrow> 'r \<Rightarrow> File
     \<Rightarrow> 'w run \<Rightarrow> (error option \<times> MulterOutFile option) \<times> 'w run" where
  "handleFile p this req file s =
     (case handleFileAsync p this req file s of
        (Inr out, s') \<Rightarrow> ((None, Some out), s')
      | (Inl err, s') \<Rightarrow> ((Some err, None), s'))"

definition removeFile ::
  "'w platform \<Rightarrow> ('r, 'w) MulterAzureStorage \<Rightarrow> 'r \<Rightarrow> File
     \<Rightarrow> 'w run \<Rightarrow> error option \<times> 'w run" where
  "removeFile p this req file s =
     (case removeFileAsync p this req file s of
        (Inr _, s') \<Rightarrow> (None, s')
      | (Inl err, s') \<Rightarrow> (Some err, s'))"

section \<open>An in-memory storage service\<close>

text \<open>
  A stand-in for the platform, used to run the adapter on concrete inputs: a fixed clock
  and fixed random bytes, and a service that keeps containers and blobs in maps. It
  knows the connection string of the development storage account and no other, and
  refuses an endpoint that contains a space. Creating a container that exists and
  deleting a blob that does not are successful no-ops, a blob request to a missing
  container is rejected, a stored blob without metadata reports an empty metadata map,
  and a signing request without a valid expiry is rejected.
\<close>

record service =
  clock :: int
  containers :: "string \<rightharpoonup> MASContainerAccessLevel option"
  blobs :: "string \<times> string \<rightharpoonup> nat list \<times> upload_options"

definition blob_key :: "BlockBlobClient \<Rightarrow> string \<times> string" where
  "blob_key b = (container (containerClient b), blob b)"

definition emu_random_bytes :: "nat \<Rightarrow> 8 word" where
  "emu_random_bytes i =
     [0x3b, 0x24, 0x11, 0x01, 0xe2, 0xbb, 0x42, 0x55,
      0x8c, 0xaf, 0x41, 0x36, 0xc5, 0x66, 0xa9, 0x62] ! i"

definition emu_fromConnectionString_throws :: "string \<Rightarrow> error option" where
  "emu_fromConnectionString_throws s =
     (if s = ''UseDevelopmentStorage=true'' then None else Some (Error ''Invalid URL''))"

definition emu_new_BlobServiceClient_throws ::
  "string \<Rightarrow> StorageSharedKeyCredential \<Rightarrow> error option" where
  "emu_new_BlobServiceClient_throws endpoint credentials =
     (if CHR '' '' \<in> set endpoint then Some (Error ''Invalid URL'') else None)"

definition emu_createIfNotExists ::
  "ContainerClient \<Rightarrow> MASContainerAccessLevel option \<Rightarrow> service \<Rightarrow> (error + unit) \<times> service" where
  "emu_createIfNotExists c a w =
     (case containers w (container c) of
        Some _ \<Rightarrow> (Inr (), w)
      | None \<Rightarrow> (Inr (), w\<lparr>containers := (containers w)(container c \<mapsto> a)\<rparr>))"

definition emu_uploadStream ::
  "BlockBlobClient \<Rightarrow> nat list \<Rightarrow> upload_options \<Rightarrow> service \<Rightarrow> (error + unit) \<times> service" where
  "emu_uploadStream b bytes opts w =
     (case containers w (container (containerClient b)) of
        None \<Rightarrow> (Inl (Error ''ContainerNotFound''), w)
      | Some _ \<Rightarrow> (Inr (), w\<lparr>blobs := (blobs w)(blob_key b \<mapsto> (bytes, opts))\<rparr>))"

definition emu_getProperties ::
  "BlockBlobClient \<Rightarrow> service \<Rightarrow> (error + BlobProperties) \<times> service" where
  "emu_getProperties b w =
     (case blobs w (blob_key b) of
        None \<Rightarrow> (Inl (Error ''BlobNotFound''), w)
      | Some (bytes, opts) \<Rightarrow>
          (Inr \<lparr>prop_etag = Some ''0x1'',
                prop_metadata =
                  Some (case upload_metadata opts of None \<Rightarrow> Map.empty | Some m \<Rightarrow> m),
                prop_blobType = Some ''BlockBlob'',
                prop_contentLength = Some (int (length bytes))\<rparr>, w))"

definition emu_generateSasUrl ::
  "BlockBlobClient \<Rightarrow> sas_options \<Rightarrow> service \<Rightarrow> (error + string) \<times> service" where
  "emu_generateSasUrl b opts w =
     (case expiresOn opts of
        None \<Rightarrow> (Inl (Error ''Must provide expiresOn''), w)
      | Some InvalidDate \<Rightarrow> (Inl (Error ''Invalid time value''), w)
      | Some (ValidDate t) \<Rightarrow>
          (Inr (''/'' @ container (containerClient b) @ ''/'' @ blob b @ ''?sp=r''), w))"

definition emu_deleteIfExists ::
  "BlockBlobClient \<Rightarrow> service \<Rightarrow> (error + unit) \<times> service" where
  "emu_deleteIfExists b w =
     (case containers w (container (containerClient b)) of
        None \<Rightarrow> (Inl (Error ''ContainerNotFound''), w)
      | Some _ \<Rightarrow> (Inr (), w\<lparr>blobs := (blobs w)(blob_key b := None)\<rparr>))"

definition emulator :: "service platform" where
  "emulator =
     \<lparr>Date_now = clock,
      rng = (\<lambda>w. (emu_random_bytes, w)),
      new_StorageSharedKeyCredential_throws = (\<lambda>n k. None),
      fromConnectionString_throws = emu_fromConnectionString_throws,
      new_BlobServiceClient_throws = emu_new_BlobServiceClient_throws,
      createIfNotExists = emu_createIfNotExists,
      uploadStream = emu_uploadStream,
      getProperties = emu_getProperties,
      generateSasUrl = emu_generateSasUrl,
      deleteIfExists = emu_deleteIfExists\<rparr>"

definition empty_service :: service where
  "empty_service = \<lparr>clock = 7, containers = Map.empty, blobs = Map.empty\<rparr>"

text \<open>A service in which the container of the sample options already exists.\<close>

definition uploads_service :: service where
  "uploads_service = empty_service\<lparr>containers := [''uploads'' \<mapsto> None]\<rparr>"

text \<open>
  Sample inputs: no environment, minimal options, and a file as multer hands it over,
  with four enumerable properties and a non-enumerable stream.
\<close>

definition no_env :: process_env where
  "no_env =
     \<lparr>AZURE_STORAGE_CONNECTION_STRING = None, AZURE_STORAGE_ACCESS_KEY = None,
      AZURE_STORAGE_ACCOUNT = None\<rparr>"

definition minimal_options :: "(unit, service) IMASOptions" where
  "minimal_options =
     \<lparr>accessKey = None, accountName = None,
      connectionString = Some ''UseDevelopmentStorage=true'',
      urlExpirationTime = UrlUndefined, blobName = None,
      containerName = Some (Static ''uploads''),
      autoCreateContainer = None, metadata = None, contentSettings = None,
      containerAccessLevel = None\<rparr>"

definition photo :: File where
  "photo =
     \<lparr>originalname = ''photo.png'', mimetype = ''image/png'', stream = [1, 2, 3],
      other = [''fieldname'' \<mapsto> JString ''avatar'', ''encoding'' \<mapsto> JString ''7bit''],
      nonenumerable = {''stream''}\<rparr>"

text \<open>The same file with an own enumerable property named like an added field.\<close>

definition photo_with_url :: File where
  "photo_with_url = photo\<lparr>other := (other photo)(''url'' \<mapsto> JString ''mine'')\<rparr>"

text \<open>The adapter these options construct, and the clients it addresses.\<close>

definition sample_adapter :: "(unit, service) MulterAzureStorage" where
  "sample_adapter =
     \<lparr>this_blobServiceClient = fromConnectionString ''UseDevelopmentStorage=true'',
      this_blobName = generateBlobName emulator,
      this_urlExpirationTime = Some (Num 60),
      this_metadata = None,
      this_contentSettings = None,
      this_containerName = promisifyValue ''uploads'',
      this_containerAccessLevel = Private,
      this_autoCreateContainer = True\<rparr>"

definition uploads_client :: ContainerClient where
  "uploads_client =
     \<lparr>serviceClient = fromConnectionString ''UseDevelopmentStorage=true'',
      container = ''uploads''\<rparr>"

definition photo_blob :: BlockBlobClient where
  "photo_blob =
     \<lparr>containerClient = uploads_client,
      blob = ''7-3b241101-e2bb-4255-8caf-4136c566a962.png''\<rparr>"

definition photo_upload :: upload_options where
  "photo_upload =
     \<lparr>upload_metadata = None,
      blobHTTPHeaders =
        \<lparr>blobCacheControl = None, blobContentType = Some ''image/png'',
         blobContentMD5 = None, blobContentEncoding = None, blobContentLanguage = None,
         blobContentDisposition = Some ''inline''\<rparr>\<rparr>"

definition photo_properties :: BlobProperties where
  "photo_properties =
     \<lparr>prop_etag = Some ''0x1'', prop_metadata = Some Map.empty,
      prop_blobType = Some ''BlockBlob'', prop_contentLength = Some 3\<rparr>"

definition photo_url :: string where
  "photo_url = ''/uploads/7-3b241101-e2bb-4255-8caf-4136c566a962.png?sp=r''"

section \<open>Notions used by the statements\<close>

text \<open>
  The spec's condition on credentials: a connection string, or both an account name and
  an access key, where each may come from the options or from the environment. A value
  counts when it is a non-empty string, which is what \<open>||\<close> falls through on.
\<close>

definition credentials_resolvable :: "('r, 'w) IMASOptions \<Rightarrow> process_env \<Rightarrow> bool" where
  "credentials_resolvable options env =
     (truthy (connectionString options) \<or> truthy (AZURE_STORAGE_CONNECTION_STRING env) \<or>
      (truthy (accountName options) \<or> truthy (AZURE_STORAGE_ACCOUNT env)) \<and>
      (truthy (accessKey options) \<or> truthy (AZURE_STORAGE_ACCESS_KEY env)))"

text \<open>The access value handed to container creation for a configured level.\<close>

definition public_access :: "MASContainerAccessLevel \<Rightarrow> MASContainerAccessLevel option" where
  "public_access l = (if l = Private then None else Some l)"





text \<open>
  \<open>logs P m\<close>: whatever the state it starts from, the operation \<open>m\<close> only appends to
  the log, and every request it appends satisfies \<open>P\<close>.
\<close>

definition logs :: "(exchange \<Rightarrow> bool) \<Rightarrow> ('w run \<Rightarrow> (error + 'a) \<times> 'w run) \<Rightarrow> bool" where
  "logs P m = (\<forall>w log. \<exists>new. sent (m (w, log)) = log @ new \<and> list_all P new)"




section \<open>Lemmas about runs\<close>

lemma logsI:
  assumes "\<And>w log. \<exists>new. sent (m (w, log)) = log @ new \<and> list_all P new"
  shows "logs P m"
  using assms by (simp add: logs_def)

lemma logs_resolved: "logs P (resolved x)"
  by (simp add: logs_def resolved_def sent_def)

lemma logs_run_resolver: "logs P (run_resolver f req file)"
  by (simp add: logs_def run_resolver_def sent_def split: prod.splits)

lemma logs_send:
  assumes "\<And>w r. P (Date_now p w, c w, r)"
  shows "logs P (\<lambda>s. send p (c (fst s)) wrap (f (fst s)) s)"
  using assms by (simp add: logs_def send_def sent_def split: prod.splits)

lemma logs_await:
  assumes m: "logs P m" and f: "\<And>x. logs P (f x)"
  shows "logs P (await m f)"
proof (rule logsI)
  fix w log
  obtain r w1 log1 where ms: "m (w, log) = (r, (w1, log1))"
    by (metis prod.exhaust)
  from m obtain new1 where n1: "log1 = log @ new1" "list_all P new1"
    using ms unfolding logs_def sent_def by (metis snd_conv)
  show "\<exists>new. sent (await m f (w, log)) = log @ new \<and> list_all P new"
  proof (cases r)
    case (Inl e)
    then show ?thesis using ms n1 by (simp add: await_def sent_def)
  next
    case (Inr x)
    from f [of x] obtain new2 where "sent (f x (w1, log1)) = log1 @ new2" "list_all P new2"
      unfolding logs_def by blast
    then show ?thesis using ms n1 Inr by (simp add: await_def)
  qed
qed

lemma logs_sent:
  assumes "logs P m" and "e \<in> set (sent (m (w, [])))"
  shows "P e"
  using assms unfolding logs_def by (metis append_Nil list_all_iff)

lemma logs_call:
  assumes "\<And>w r. P (Date_now p w, c, r)"
  shows "logs P (send p c wrap f)"
  using logs_send [where c = "\<lambda>_. c" and f = "\<lambda>_. f" and P = P and p = p and wrap = wrap] assms
  by simp

lemma logs_generateSasUrl:
  assumes "\<And>t r. P (t, GenerateSasUrl b (sas_request this t), r)"
  shows "logs P (\<lambda>s. call_generateSasUrl p b (sas_request this (Date_now p (fst s))) s)"
  unfolding call_generateSasUrl_def
  using logs_send [where c = "\<lambda>w. GenerateSasUrl b (sas_request this (Date_now p w))"
      and f = "\<lambda>w. generateSasUrl p b (sas_request this (Date_now p w))"
      and P = P and p = p and wrap = SasUrl] assms
  by simp

lemma logs_getContainerClient:
  assumes "\<And>t cc r. this_autoCreateContainer this \<Longrightarrow>
     P (t, CreateIfNotExists cc (public_access (this_containerAccessLevel this)), r)"
  shows "logs P (this_getContainerClient p this name)"
  using assms
  by (auto simp: this_getContainerClient_def call_createIfNotExists_def public_access_def Let_def
      intro!: logs_await logs_resolved logs_call)

lemma logs_metadata:
  "logs P (case this_metadata this of
             None \<Rightarrow> resolved None
           | Some f \<Rightarrow> await (run_resolver f req file) (\<lambda>m. resolved (Some m)))"
  by (auto split: option.splits intro!: logs_await logs_resolved logs_run_resolver)

lemma logs_contentSettings:
  "logs P (case this_contentSettings this of
             Some f \<Rightarrow> run_resolver f req file
           | None \<Rightarrow> resolved (default_contentSettings file))"
  by (auto split: option.splits intro!: logs_resolved logs_run_resolver)

lemma await_resolved: "await (resolved x) f = f x"
  by (simp add: await_def resolved_def fun_eq_iff)

lemma logs_handleFileAsync:
  assumes create: "\<And>t cc r. this_autoCreateContainer this \<Longrightarrow>
       P (t, CreateIfNotExists cc (public_access (this_containerAccessLevel this)), r)"
    and upload: "\<And>t b m cs r.
       (this_metadata this = None \<longrightarrow> m = None) \<Longrightarrow>
       (this_contentSettings this = None \<longrightarrow> cs = default_contentSettings file) \<Longrightarrow>
       P (t, UploadStream b (stream file)
               \<lparr>upload_metadata = m, blobHTTPHeaders = headers_of cs\<rparr>, r)"
    and props: "\<And>t b r. P (t, GetProperties b, r)"
    and sas: "\<And>t b r. P (t, GenerateSasUrl b (sas_request this t), r)"
  shows "logs P (handleFileAsync p this req file)"
proof (cases "this_metadata this"; cases "this_contentSettings this")
  assume "this_metadata this = None" "this_contentSettings this = None"
  then show ?thesis
    unfolding handleFileAsync_def Let_def call_uploadStream_def call_getProperties_def
    by (simp add: await_resolved)
      (intro logs_await logs_run_resolver logs_resolved logs_getContainerClient logs_call
        logs_generateSasUrl create upload props sas; simp)
next
  fix g assume "this_metadata this = None" "this_contentSettings this = Some g"
  then show ?thesis
    unfolding handleFileAsync_def Let_def call_uploadStream_def call_getProperties_def
    by (simp add: await_resolved)
      (intro logs_await logs_run_resolver logs_resolved logs_getContainerClient logs_call
        logs_generateSasUrl create upload props sas; simp)
next
  fix f assume "this_metadata this = Some f" "this_contentSettings this = None"
  then show ?thesis
    unfolding handleFileAsync_def Let_def call_uploadStream_def call_getProperties_def
    by (simp add: await_resolved)
      (intro logs_await logs_run_resolver logs_resolved logs_getContainerClient logs_call
        logs_generateSasUrl create upload props sas; simp)
next
  fix f g assume "this_metadata this = Some f" "this_contentSettings this = Some g"
  then show ?thesis
    unfolding handleFileAsync_def Let_def call_uploadStream_def call_getProperties_def
    by (simp add: await_resolved)
      (intro logs_await logs_run_resolver logs_resolved logs_getContainerClient logs_call
        logs_generateSasUrl create upload props sas; simp)
qed

lemma logs_removeFileAsync:
  assumes create: "\<And>t cc r. this_autoCreateContainer this \<Longrightarrow>
       P (t, CreateIfNotExists cc (public_access (this_containerAccessLevel this)), r)"
    and delete: "\<And>t b r. P (t, DeleteIfExists b, r)"
  shows "logs P (removeFileAsync p this req file)"
  unfolding removeFileAsync_def Let_def call_deleteIfExists_def
  by (intro logs_await logs_run_resolver logs_resolved logs_getContainerClient logs_call
      create delete)

lemma await_Inr:
  "await m f s = (Inr y, s'') \<longleftrightarrow> (\<exists>x s'. m s = (Inr x, s') \<and> f x s' = (Inr y, s''))"
  by (auto simp: await_def split: prod.splits sum.splits)

lemma run_resolver_eq:
  "run_resolver f req file (w, log) = (r, s') \<longleftrightarrow> (\<exists>w'. f req file w = (r, w') \<and> s' = (w', log))"
  by (auto simp: run_resolver_def split: prod.splits)

lemma send_eq:
  "send p c wrap f (w, log) = (r, s') \<longleftrightarrow>
     (\<exists>w'. f w = (r, w') \<and> s' = (w', log @ [(Date_now p w, c, map_sum id wrap r)]))"
  by (auto simp: send_def split: prod.splits)

lemma resolved_eq: "resolved x s = (r, s') \<longleftrightarrow> r = Inr x \<and> s' = s"
  by (auto simp: resolved_def)

lemma handleFileAsync_requests:
  assumes "(t, c, r) \<in> set (sent (handleFileAsync p this req file (w, [])))"
  shows "(\<forall>cc a. c = CreateIfNotExists cc a \<longrightarrow>
            this_autoCreateContainer this \<and> a = public_access (this_containerAccessLevel this)) \<and>
         (\<forall>b bytes opts. c = UploadStream b bytes opts \<longrightarrow>
            (this_metadata this = None \<longrightarrow> upload_metadata opts = None) \<and>
            (this_contentSettings this = None \<longrightarrow>
               blobHTTPHeaders opts = headers_of (default_contentSettings file))) \<and>
         (\<forall>b so. c = GenerateSasUrl b so \<longrightarrow> so = sas_request this t)"
proof -
  let ?P = "\<lambda>(t, c, r).
      (\<forall>cc a. c = CreateIfNotExists cc a \<longrightarrow>
          this_autoCreateContainer this \<and> a = public_access (this_containerAccessLevel this)) \<and>
      (\<forall>b bytes opts. c = UploadStream b bytes opts \<longrightarrow>
          (this_metadata this = None \<longrightarrow> upload_metadata opts = None) \<and>
          (this_contentSettings this = None \<longrightarrow>
             blobHTTPHeaders opts = headers_of (default_contentSettings file))) \<and>
      (\<forall>b so. c = GenerateSasUrl b so \<longrightarrow> so = sas_request this t)"
  have "logs ?P (handleFileAsync p this req file)"
    by (rule logs_handleFileAsync) auto
  from logs_sent [OF this assms] show ?thesis by simp
qed

lemma removeFileAsync_requests:
  assumes "(t, c, r) \<in> set (sent (removeFileAsync p this req file (w, [])))"
  shows "\<forall>cc a. c = CreateIfNotExists cc a \<longrightarrow>
            this_autoCreateContainer this \<and> a = public_access (this_containerAccessLevel this)"
proof -
  let ?P = "\<lambda>(t, c, r). \<forall>cc a. c = CreateIfNotExists cc a \<longrightarrow>
      this_autoCreateContainer this \<and> a = public_access (this_containerAccessLevel this)"
  have "logs ?P (removeFileAsync p this req file)"
    by (rule logs_removeFileAsync) auto
  from logs_sent [OF this assms] show ?thesis by simp
qed

lemma removeFileAsync_deleted:
  assumes on: "this_autoCreateContainer this"
    and del: "(t, DeleteIfExists bb, r) \<in> set (sent (removeFileAsync p this req file (w, [])))"
  shows "\<exists>w2 w3 w4 answer.
     createIfNotExists p (containerClient bb)
       (public_access (this_containerAccessLevel this)) w2 = (Inr (), w3) \<and>
     deleteIfExists p bb w3 = (answer, w4) \<and>
     removeFileAsync p this req file (w, []) =
       (answer,
        (w4,
         [(Date_now p w2,
           CreateIfNotExists (containerClient bb)
             (public_access (this_containerAccessLevel this)), Inr Done),
          (Date_now p w3, DeleteIfExists bb, map_sum id (\<lambda>_. Done) answer)]))"
proof -
  have access: "(if this_containerAccessLevel this = Private then None
      else Some (this_containerAccessLevel this)) =
      public_access (this_containerAccessLevel this)"
    by (simp add: public_access_def)
  show ?thesis
    using assms
    unfolding removeFileAsync_def this_getContainerClient_def call_createIfNotExists_def
      call_deleteIfExists_def Let_def access getBlockBlobClient_def
    by (auto simp: await_def run_resolver_def send_def resolved_def sent_def
        split: prod.splits sum.splits)
qed

lemma handleFileAsync_fulfilled:
  assumes "fst (handleFileAsync p this req file (w, [])) = Inr out"
  shows "\<exists>w1 w2 pre t1 opts t2 props t3 b.
     this_containerName this req file w = (Inr (MulterOutFile.containerName out), w1) \<and>
     this_blobName this req file w1 = (Inr (MulterOutFile.blobName out), w2) \<and>
     b = getBlockBlobClient
           (getContainerClient (this_blobServiceClient this) (MulterOutFile.containerName out))
           (MulterOutFile.blobName out) \<and>
     sent (handleFileAsync p this req file (w, [])) =
       pre @ [(t1, UploadStream b (stream file) opts, Inr Done),
              (t2, GetProperties b, Inr (Properties props)),
              (t3, GenerateSasUrl b (sas_request this t3), Inr (SasUrl (url out)))] \<and>
     out =
       \<lparr>copied = (\<lambda>k. if k \<in> added_keys then None else spread file k),
        url = url out, etag = prop_etag props, metadata = prop_metadata props,
        containerName = MulterOutFile.containerName out, blobName = MulterOutFile.blobName out,
        blobType = prop_blobType props, blobSize = prop_contentLength props\<rparr>"
proof -
  obtain s where run: "handleFileAsync p this req file (w, []) = (Inr out, s)"
    using assms by (metis prod.collapse)
  then show ?thesis
    unfolding sent_def run
    using run
    unfolding handleFileAsync_def Let_def this_getContainerClient_def
      call_uploadStream_def call_getProperties_def call_generateSasUrl_def
      call_createIfNotExists_def
    by (auto simp: await_Inr run_resolver_eq send_eq resolved_eq
        split: if_splits option.splits)
qed

section \<open>Lemmas about the libraries\<close>


















section \<open>Lemmas about \<open>extname\<close>\<close>












section \<open>The sample runs\<close>

lemma number_to_string_7: "number_to_string 7 = ''7''"
  by (simp add: number_to_string_def decimal.simps digit_def)

lemmas extname_eval = extname_def extname_init_def extname_step_def Let_def eval_nat_numeral

lemma extname_photo: "extname ''photo.png'' = ''.png''"
  by (simp add: extname_eval)

lemma emu_uuid: "v4 emulator w = (''3b241101-e2bb-4255-8caf-4136c566a962'', w)"
  by (simp add: v4_def emulator_def unsafeStringify_def v4_bytes_def byteToHex_def
      hexdigit_def emu_random_bytes_def Let_def)

lemmas sample_defs = minimal_options_def no_env_def photo_def empty_service_def
  sample_adapter_def uploads_client_def photo_blob_def photo_upload_def photo_properties_def
  photo_url_def

lemma emulator_fields:
  "Date_now emulator = clock"
  "new_StorageSharedKeyCredential_throws emulator = (\<lambda>n k. None)"
  "fromConnectionString_throws emulator = emu_fromConnectionString_throws"
  "new_BlobServiceClient_throws emulator = emu_new_BlobServiceClient_throws"
  "createIfNotExists emulator = emu_createIfNotExists"
  "uploadStream emulator = emu_uploadStream"
  "getProperties emulator = emu_getProperties"
  "generateSasUrl emulator = emu_generateSasUrl"
  "deleteIfExists emulator = emu_deleteIfExists"
  by (simp_all add: emulator_def)

lemmas emulator_defs = emulator_fields emu_fromConnectionString_throws_def
  emu_new_BlobServiceClient_throws_def emu_createIfNotExists_def
  emu_uploadStream_def emu_getProperties_def emu_generateSasUrl_def emu_deleteIfExists_def
  blob_key_def

lemmas run_defs = handleFileAsync_def removeFileAsync_def this_getContainerClient_def
  await_def resolved_def run_resolver_def send_def sent_def
  call_createIfNotExists_def call_uploadStream_def call_getProperties_def
  call_generateSasUrl_def call_deleteIfExists_def
  getContainerClient_def getBlockBlobClient_def default_contentSettings_def headers_of_def
  promisifyValue_def promisifyOption_def generateBlobName_def Let_def
  sas_request_def new_Date_def minutes_after_def number_truthy_def

lemmas photo_eval = run_defs sample_defs emulator_defs number_to_string_7 emu_uuid
  extname_photo

lemma constructor_minimal:
  "constructor emulator
     (minimal_options\<lparr>urlExpirationTime := u, containerAccessLevel := l\<rparr>) no_env =
   Inr (sample_adapter
     \<lparr>this_urlExpirationTime := resolve_urlExpirationTime u,
      this_containerAccessLevel := (case l of Some a \<Rightarrow> a | None \<Rightarrow> Private)\<rparr>)"
  by (simp add: constructor_def sample_defs resolve_connection_def js_or_def truthy_def
      containerName_truthy_def init_blob_service_def promisifyOption_def emulator_defs
      DEFAULT_CONTAINER_ACCESS_LEVEL_def split: option.splits)

lemma constructor_sample: "constructor emulator minimal_options no_env = Inr sample_adapter"
  using constructor_minimal [where u = UrlUndefined and l = None]
  by (simp add: minimal_options_def sample_adapter_def resolve_urlExpirationTime_def
      DEFAULT_URL_EXPIRATION_TIME_def)

lemma photo_stored_default:
  "fst (handleFileAsync emulator sample_adapter () photo (empty_service, [])) =
     Inr \<lparr>copied = (\<lambda>k. if k \<in> added_keys then None else spread photo k),
          url = photo_url, etag = Some ''0x1'', metadata = Some Map.empty,
          containerName = ''uploads'',
          blobName = ''7-3b241101-e2bb-4255-8caf-4136c566a962.png'',
          blobType = Some ''BlockBlob'', blobSize = Some 3\<rparr>"
  "sent (handleFileAsync emulator sample_adapter () photo (empty_service, [])) =
     [(7, CreateIfNotExists uploads_client None, Inr Done),
      (7, UploadStream photo_blob [1, 2, 3] photo_upload, Inr Done),
      (7, GetProperties photo_blob, Inr (Properties photo_properties)),
      (7, GenerateSasUrl photo_blob (sas_request sample_adapter 7), Inr (SasUrl photo_url))]"
  by (simp_all add: photo_eval cong: if_cong)

lemma photo_stored_level:
  "l \<noteq> Private \<Longrightarrow>
   take 2 (sent (handleFileAsync emulator (sample_adapter\<lparr>this_containerAccessLevel := l\<rparr>)
      () photo (empty_service, []))) =
     [(7, CreateIfNotExists uploads_client (Some l), Inr Done),
      (7, UploadStream photo_blob [1, 2, 3] photo_upload, Inr Done)]"
  by (simp add: photo_eval)



lemma photo_with_url_stored:
  "fst (handleFileAsync emulator sample_adapter () photo_with_url (empty_service, [])) =
     Inr \<lparr>copied = (\<lambda>k. if k \<in> added_keys then None else spread photo_with_url k),
          url = photo_url, etag = Some ''0x1'', metadata = Some Map.empty,
          containerName = ''uploads'',
          blobName = ''7-3b241101-e2bb-4255-8caf-4136c566a962.png'',
          blobType = Some ''BlockBlob'', blobSize = Some 3\<rparr>"
  by (simp add: photo_eval photo_with_url_def cong: if_cong)

lemma photo_removed:
  "fst (removeFileAsync emulator sample_adapter () photo (empty_service, [])) = Inr ()"
  "sent (removeFileAsync emulator sample_adapter () photo (empty_service, [])) =
     [(7, CreateIfNotExists uploads_client None, Inr Done),
      (7, DeleteIfExists photo_blob, Inr Done)]"
  "containers (fst (snd (removeFileAsync emulator sample_adapter () photo (empty_service, []))))
     ''uploads'' = Some None"
  by (simp_all add: photo_eval)

lemma photo_stored_again:
  "\<not> isl (fst (handleFileAsync emulator sample_adapter () photo (uploads_service, [])))"
  "hd (sent (handleFileAsync emulator sample_adapter () photo (uploads_service, []))) =
     (7, CreateIfNotExists uploads_client None, Inr Done)"
  by (simp_all add: photo_eval uploads_service_def)

section \<open>Lemmas about the constructor\<close>

lemma resolve_connection_None:
  "resolve_connection options env = None \<longleftrightarrow> \<not> credentials_resolvable options env"
  by (auto simp: resolve_connection_def credentials_resolvable_def js_or_def truthy_def Let_def
      split: option.splits)

lemma constructor_fields:
  assumes "constructor p options env = Inr this"
  shows "this_urlExpirationTime this = resolve_urlExpirationTime (urlExpirationTime options)"
    and "this_metadata this = map_option promisifyOption (metadata options)"
    and "this_contentSettings this = map_option promisifyOption (contentSettings options)"
    and "this_blobName this = (case blobName options of Some f \<Rightarrow> f | None \<Rightarrow> generateBlobName p)"
    and "this_containerAccessLevel this =
           (case containerAccessLevel options of Some l \<Rightarrow> l | None \<Rightarrow> Private)"
    and "this_autoCreateContainer this = (autoCreateContainer options \<noteq> Some False)"
    and "\<exists>name. containerName options = Some name \<and> this_containerName this = promisifyOption name"
    and "\<exists>c. resolve_connection options env = Some c \<and>
           init_blob_service p options c = Inr (this_blobServiceClient this)"
  using assms
  by (auto simp: constructor_def DEFAULT_CONTAINER_ACCESS_LEVEL_def
      split: option.splits if_splits sum.splits)


section \<open>Lemmas about container creation\<close>

lemma await_assoc: "await (await m f) g = await m (\<lambda>x. await (f x) g)"
  by (auto simp: await_def fun_eq_iff split: prod.splits sum.splits)

lemma logs_grows:
  assumes "logs P m"
  shows "\<exists>new. sent (m (w, log)) = log @ new"
  using assms unfolding logs_def by blast

lemma getContainerClient_creates:
  assumes "this_autoCreateContainer this"
  shows "this_getContainerClient p this name =
     await (call_createIfNotExists p (getContainerClient (this_blobServiceClient this) name)
              (public_access (this_containerAccessLevel this)))
       (\<lambda>_. resolved (getContainerClient (this_blobServiceClient this) name))"
  using assms by (simp add: this_getContainerClient_def public_access_def Let_def)

lemma handleFileAsync_resolved:
  assumes on: "this_autoCreateContainer this"
    and cn: "this_containerName this req file w = (Inr cn, w1)"
    and bn: "this_blobName this req file w1 = (Inr bn, w2)"
    and cs: "(this_contentSettings this = None \<and> cs = default_contentSettings file \<and> w3 = w2) \<or>
             (\<exists>f. this_contentSettings this = Some f \<and> f req file w2 = (Inr cs, w3))"
    and md: "(this_metadata this = None \<and> md = None \<and> w4 = w3) \<or>
             (\<exists>f m. this_metadata this = Some f \<and> f req file w3 = (Inr m, w4) \<and> md = Some m)"
  shows "handleFileAsync p this req file (w, []) =
     await (call_createIfNotExists p (getContainerClient (this_blobServiceClient this) cn)
              (public_access (this_containerAccessLevel this))) (\<lambda>_.
     await (call_uploadStream p
              (getBlockBlobClient (getContainerClient (this_blobServiceClient this) cn) bn)
              (stream file)
              \<lparr>upload_metadata = md, blobHTTPHeaders = headers_of cs\<rparr>) (\<lambda>_.
     await (call_getProperties p
              (getBlockBlobClient (getContainerClient (this_blobServiceClient this) cn) bn))
       (\<lambda>blobProperties.
     await (\<lambda>s. call_generateSasUrl p
                   (getBlockBlobClient (getContainerClient (this_blobServiceClient this) cn) bn)
                   (sas_request this (Date_now p (fst s))) s) (\<lambda>sasUrl.
     resolved
       \<lparr>copied = (\<lambda>k. if k \<in> added_keys then None else spread file k),
        url = sasUrl,
        etag = prop_etag blobProperties,
        metadata = prop_metadata blobProperties,
        containerName = cn,
        blobName = bn,
        blobType = prop_blobType blobProperties,
        blobSize = prop_contentLength blobProperties\<rparr>)))) (w4, [])"
proof -
  have settings: "(case this_contentSettings this of
        Some f \<Rightarrow> run_resolver f req file
      | None \<Rightarrow> resolved (default_contentSettings file)) (w2, []) = (Inr cs, (w3, []))"
    using cs by (auto simp: run_resolver_def resolved_def)
  have meta: "(case this_metadata this of
        None \<Rightarrow> resolved None
      | Some f \<Rightarrow> await (run_resolver f req file) (\<lambda>m. resolved (Some m))) (w3, []) =
      (Inr md, (w4, []))"
    using md by (auto simp: run_resolver_def resolved_def await_def)
  have name: "await (run_resolver (this_containerName this) req file) f (w, []) = f cn (w1, [])"
    for f :: "string \<Rightarrow> 'b run \<Rightarrow> (error + MulterOutFile) \<times> 'b run"
    using cn by (simp add: await_def run_resolver_def)
  have blob: "await (run_resolver (this_blobName this) req file) f (w1, []) = f bn (w2, [])"
    for f :: "string \<Rightarrow> 'b run \<Rightarrow> (error + MulterOutFile) \<times> 'b run"
    using bn by (simp add: await_def run_resolver_def)
  have settings': "await (case this_contentSettings this of
        Some f \<Rightarrow> run_resolver f req file
      | None \<Rightarrow> resolved (default_contentSettings file)) f (w2, []) = f cs (w3, [])"
    for f :: "MASContentSettings \<Rightarrow> 'b run \<Rightarrow> (error + MulterOutFile) \<times> 'b run"
    using settings by (simp add: await_def)
  have meta': "await (case this_metadata this of
        None \<Rightarrow> resolved None
      | Some f \<Rightarrow> await (run_resolver f req file) (\<lambda>m. resolved (Some m))) f (w3, []) =
      f md (w4, [])"
    for f :: "MASMetadata option \<Rightarrow> 'b run \<Rightarrow> (error + MulterOutFile) \<times> 'b run"
    using meta by (simp add: await_def)
  show ?thesis
    unfolding handleFileAsync_def
    by (simp only: name blob settings' meta'
        getContainerClient_creates [OF on] await_assoc await_resolved Let_def)
qed

lemma handleFileAsync_creates:
  assumes on: "this_autoCreateContainer this"
    and cn: "this_containerName this req file w = (Inr cn, w1)"
    and bn: "this_blobName this req file w1 = (Inr bn, w2)"
    and cs: "(this_contentSettings this = None \<and> cs = default_contentSettings file \<and> w3 = w2) \<or>
             (\<exists>f. this_contentSettings this = Some f \<and> f req file w2 = (Inr cs, w3))"
    and md: "(this_metadata this = None \<and> md = None \<and> w4 = w3) \<or>
             (\<exists>f m. this_metadata this = Some f \<and> f req file w3 = (Inr m, w4) \<and> md = Some m)"
    and created: "createIfNotExists p (getContainerClient (this_blobServiceClient this) cn)
       (public_access (this_containerAccessLevel this)) w4 = (created, w5)"
  shows "(\<forall>e. created = Inl e \<longrightarrow>
            handleFileAsync p this req file (w, []) =
              (Inl e,
               (w5,
                [(Date_now p w4,
                  CreateIfNotExists (getContainerClient (this_blobServiceClient this) cn)
                    (public_access (this_containerAccessLevel this)), Inl e)]))) \<and>
         (created = Inr () \<longrightarrow>
            (\<exists>uploaded rest.
               sent (handleFileAsync p this req file (w, [])) =
                 (Date_now p w4,
                  CreateIfNotExists (getContainerClient (this_blobServiceClient this) cn)
                    (public_access (this_containerAccessLevel this)), Inr Done) #
                 (Date_now p w5,
                  UploadStream
                    (getBlockBlobClient (getContainerClient (this_blobServiceClient this) cn) bn)
                    (stream file)
                    \<lparr>upload_metadata = md, blobHTTPHeaders = headers_of cs\<rparr>,
                  uploaded) # rest))"
proof (intro conjI allI impI)
  fix e assume "created = Inl e"
  with created show "handleFileAsync p this req file (w, []) =
      (Inl e,
       (w5,
        [(Date_now p w4,
          CreateIfNotExists (getContainerClient (this_blobServiceClient this) cn)
            (public_access (this_containerAccessLevel this)), Inl e)]))"
    unfolding handleFileAsync_resolved [OF on cn bn cs md]
    by (simp add: await_def call_createIfNotExists_def send_def)
next
  let ?b = "getBlockBlobClient (getContainerClient (this_blobServiceClient this) cn) bn"
  let ?opts = "\<lparr>upload_metadata = md, blobHTTPHeaders = headers_of cs\<rparr>"
  let ?create = "(Date_now p w4,
      CreateIfNotExists (getContainerClient (this_blobServiceClient this) cn)
        (public_access (this_containerAccessLevel this)), Inr Done)"
  assume ok: "created = Inr ()"
  obtain u w6 where up: "uploadStream p ?b (stream file) ?opts w5 = (u, w6)"
    by (metis prod.exhaust)
  let ?upload = "(Date_now p w5, UploadStream ?b (stream file) ?opts, map_sum id (\<lambda>_. Done) u)"
  show "\<exists>uploaded rest.
      sent (handleFileAsync p this req file (w, [])) =
        ?create # (Date_now p w5, UploadStream ?b (stream file) ?opts, uploaded) # rest"
  proof (cases u)
    case (Inl e)
    with created ok up
    have "sent (handleFileAsync p this req file (w, [])) = [?create, ?upload]"
      unfolding handleFileAsync_resolved [OF on cn bn cs md]
      by (simp add: await_def call_createIfNotExists_def call_uploadStream_def send_def sent_def)
    then show ?thesis by blast
  next
    case (Inr x)
    let ?k = "await (call_getProperties p ?b) (\<lambda>blobProperties.
        await (\<lambda>s. call_generateSasUrl p ?b (sas_request this (Date_now p (fst s))) s)
          (\<lambda>sasUrl.
        resolved
          \<lparr>copied = (\<lambda>k. if k \<in> added_keys then None else spread file k),
           url = sasUrl,
           etag = prop_etag blobProperties,
           metadata = prop_metadata blobProperties,
           containerName = cn,
           blobName = bn,
           blobType = prop_blobType blobProperties,
           blobSize = prop_contentLength blobProperties\<rparr>))"
    from Inr created ok up
    have run: "handleFileAsync p this req file (w, []) = ?k (w6, [?create, ?upload])"
      unfolding handleFileAsync_resolved [OF on cn bn cs md]
      by (simp add: await_def call_createIfNotExists_def call_uploadStream_def send_def)
    have "logs (\<lambda>_. True) ?k"
      unfolding call_getProperties_def
      by (intro logs_await logs_call logs_generateSasUrl logs_resolved) simp_all
    then have "\<exists>new. sent (?k (w6, [?create, ?upload])) = [?create, ?upload] @ new"
      by (rule logs_grows)
    then obtain new where "sent (?k (w6, [?create, ?upload])) = [?create, ?upload] @ new" ..
    then show ?thesis
      unfolding run by simp
  qed
qed

lemma removeFileAsync_creates:
  assumes on: "this_autoCreateContainer this"
    and cn: "this_containerName this req file w = (Inr cn, w1)"
    and bn: "this_blobName this req file w1 = (Inr bn, w2)"
    and created: "createIfNotExists p (getContainerClient (this_blobServiceClient this) cn)
       (public_access (this_containerAccessLevel this)) w2 = (created, w3)"
    and deleted: "deleteIfExists p
       (getBlockBlobClient (getContainerClient (this_blobServiceClient this) cn) bn) w3 =
       (deleted, w4)"
  shows "(\<forall>e. created = Inl e \<longrightarrow>
            removeFileAsync p this req file (w, []) =
              (Inl e,
               (w3,
                [(Date_now p w2,
                  CreateIfNotExists (getContainerClient (this_blobServiceClient this) cn)
                    (public_access (this_containerAccessLevel this)), Inl e)]))) \<and>
         (created = Inr () \<longrightarrow>
            removeFileAsync p this req file (w, []) =
              (deleted,
               (w4,
                [(Date_now p w2,
                  CreateIfNotExists (getContainerClient (this_blobServiceClient this) cn)
                    (public_access (this_containerAccessLevel this)), Inr Done),
                 (Date_now p w3,
                  DeleteIfExists
                    (getBlockBlobClient (getContainerClient (this_blobServiceClient this) cn) bn),
                  map_sum id (\<lambda>_. Done) deleted)])))"
  using cn bn created deleted
  unfolding removeFileAsync_def getContainerClient_creates [OF on]
  by (simp add: await_def run_resolver_def call_createIfNotExists_def call_deleteIfExists_def
      send_def resolved_def Let_def)
section \<open>Construction\<close>

text \<open>
  C1, as the claim states it, fails: with a connection string and a container name
  supplied, neither condition holds, yet construction throws when the client library
  refuses the connection string, and likewise when the account name gives an endpoint the
  library refuses.
\<close>

theorem constructor_library_counterexample:
  "credentials_resolvable (minimal_options\<lparr>connectionString := Some ''garbage''\<rparr>) no_env \<and>
   containerName_truthy (containerName (minimal_options\<lparr>connectionString := Some ''garbage''\<rparr>)) \<and>
   constructor emulator (minimal_options\<lparr>connectionString := Some ''garbage''\<rparr>) no_env =
     Inl (Error ''Invalid URL'') \<and>
   credentials_resolvable
     (minimal_options\<lparr>connectionString := None, accountName := Some ''a b'',
        accessKey := Some ''key''\<rparr>) no_env \<and>
   constructor emulator
     (minimal_options\<lparr>connectionString := None, accountName := Some ''a b'',
        accessKey := Some ''key''\<rparr>) no_env =
     Inl (Error ''Invalid URL'')"
  by (simp add: constructor_def minimal_options_def no_env_def resolve_connection_def js_or_def
      truthy_def containerName_truthy_def credentials_resolvable_def init_blob_service_def
      interpolate_def emulator_defs Let_def)

text \<open>
  C1, amended. The constructor throws its credentials error when no credential is
  resolvable, and its container-name error when credentials are resolvable and
  \<open>options.containerName\<close> is missing (or the empty string). In every other case it
  calls the constructors of the client library with the resolved credential: it throws
  what they throw, and otherwise returns an adapter holding the client they built. So it
  throws exactly when a condition holds or the library refuses the credential.
\<close>

theorem constructor_outcome:
  "(\<not> credentials_resolvable options env \<longrightarrow>
      constructor p options env = Inl missing_credentials) \<and>
   (credentials_resolvable options env \<and> \<not> containerName_truthy (containerName options) \<longrightarrow>
      constructor p options env = Inl missing_container_name) \<and>
   (credentials_resolvable options env \<and> containerName_truthy (containerName options) \<longrightarrow>
      (\<exists>c. resolve_connection options env = Some c \<and>
         (case init_blob_service p options c of
            Inl e \<Rightarrow> constructor p options env = Inl e
          | Inr client \<Rightarrow>
              (\<exists>this. constructor p options env = Inr this \<and>
                 this_blobServiceClient this = client)))) \<and>
   (isl (constructor p options env) \<longleftrightarrow>
      \<not> credentials_resolvable options env \<or>
      \<not> containerName_truthy (containerName options) \<or>
      (\<exists>c. resolve_connection options env = Some c \<and> isl (init_blob_service p options c)))"
proof (cases "resolve_connection options env")
  case None
  then have "\<not> credentials_resolvable options env"
    by (simp add: resolve_connection_None)
  with None show ?thesis
    by (simp add: constructor_def)
next
  case (Some c)
  then have resolvable: "credentials_resolvable options env"
    using resolve_connection_None [of options env] by simp
  show ?thesis
  proof (cases "containerName_truthy (containerName options)")
    case False
    with Some resolvable show ?thesis
      by (auto simp: constructor_def split: option.splits)
  next
    case True
    then obtain name where "containerName options = Some name"
      by (auto simp: containerName_truthy_def split: option.splits)
    with True Some resolvable show ?thesis
      by (cases "init_blob_service p options c") (simp_all add: constructor_def)
  qed
qed

theorem constructor_outcome_witness:
  "credentials_resolvable minimal_options no_env \<and>
   containerName_truthy (containerName minimal_options) \<and>
   resolve_connection minimal_options no_env =
     Some (ConnectionString ''UseDevelopmentStorage=true'') \<and>
   init_blob_service emulator minimal_options
       (ConnectionString ''UseDevelopmentStorage=true'') =
     Inr (fromConnectionString ''UseDevelopmentStorage=true'') \<and>
   \<not> isl (constructor emulator minimal_options no_env) \<and>
   constructor emulator (minimal_options\<lparr>containerName := Some (Static '''')\<rparr>) no_env =
     Inl missing_container_name \<and>
   constructor emulator (minimal_options\<lparr>connectionString := Some ''''\<rparr>) no_env =
     Inl missing_credentials"
  using constructor_outcome [of minimal_options no_env emulator]
    constructor_outcome [of "minimal_options\<lparr>containerName := Some (Static '''')\<rparr>" no_env emulator]
    constructor_outcome [of "minimal_options\<lparr>connectionString := Some ''''\<rparr>" no_env emulator]
  by (simp add: credentials_resolvable_def minimal_options_def no_env_def truthy_def
      containerName_truthy_def resolve_connection_def js_or_def init_blob_service_def
      emulator_defs)

text \<open>
  C2. With no connection string, an access key in the options and the account name only
  in \<open>AZURE_STORAGE_ACCOUNT\<close>, construction succeeds and the credential carries the
  environment's account name, but the service URL is interpolated from
  \<open>options.accountName\<close>, which is \<open>undefined\<close>: the client is addressed to
  \<open>https://undefined.blob.core.windows.net\<close>, not to the endpoint it gets when the same
  name is passed in the options.
\<close>

theorem env_account_endpoint:
  "map_sum id this_blobServiceClient
     (constructor emulator
        (minimal_options\<lparr>connectionString := None, accessKey := Some ''key''\<rparr>)
        (no_env\<lparr>AZURE_STORAGE_ACCOUNT := Some ''acct''\<rparr>)) =
   Inr (BlobServiceClient ''https://undefined.blob.core.windows.net''
          (StorageSharedKeyCredential ''acct'' ''key'')) \<and>
   map_sum id this_blobServiceClient
     (constructor emulator
        (minimal_options\<lparr>connectionString := None, accessKey := Some ''key'',
           accountName := Some ''acct''\<rparr>)
        no_env) =
   Inr (BlobServiceClient ''https://acct.blob.core.windows.net''
          (StorageSharedKeyCredential ''acct'' ''key''))"
  by (simp add: constructor_def minimal_options_def no_env_def resolve_connection_def js_or_def
      truthy_def containerName_truthy_def init_blob_service_def interpolate_def
      emulator_defs Let_def)

text \<open>
  C8. Lifting a static value gives a resolver that, for every request, file and world,
  fulfils with exactly that value and leaves the world alone; lifting a function returns
  the function itself. The resolvers of a constructed adapter for container name,
  metadata and content settings are these liftings of the options.
\<close>

theorem promisify_identity:
  "promisifyOption (Static v) req file w = (Inr v, w) \<and>
   promisifyOption (Function f) = f \<and>
   (constructor p options env = Inr this \<longrightarrow>
      (\<forall>name. containerName options = Some (Static name) \<longrightarrow>
         this_containerName this req file w = (Inr name, w)) \<and>
      (\<forall>g. containerName options = Some (Function g) \<longrightarrow> this_containerName this = g) \<and>
      (\<forall>m. metadata options = Some (Static m) \<longrightarrow>
         (\<exists>h. this_metadata this = Some h \<and> h req file w = (Inr m, w))) \<and>
      (\<forall>g. metadata options = Some (Function g) \<longrightarrow> this_metadata this = Some g) \<and>
      (\<forall>cs. contentSettings options = Some (Static cs) \<longrightarrow>
         (\<exists>h. this_contentSettings this = Some h \<and> h req file w = (Inr cs, w))) \<and>
      (\<forall>g. contentSettings options = Some (Function g) \<longrightarrow> this_contentSettings this = Some g))"
proof -
  have lift: "\<And>v req file w. promisifyOption (Static v) req file w = (Inr v, w)"
    by (simp add: promisifyOption_def promisifyValue_def)
  have keep: "\<And>f. promisifyOption (Function f) = f"
    by (simp add: promisifyOption_def)
  show ?thesis
    using constructor_fields(2,3,7) [of p options env this]
    by (auto simp: lift keep)
qed

theorem promisify_identity_witness:
  "\<exists>this. constructor emulator minimal_options no_env = Inr this \<and>
     containerName minimal_options = Some (Static ''uploads'') \<and>
     this_containerName this () photo empty_service = (Inr ''uploads'', empty_service)"
proof -
  have c: "constructor emulator minimal_options no_env = Inr sample_adapter"
    using constructor_minimal [where u = UrlUndefined and l = None]
    by (simp add: minimal_options_def sample_adapter_def resolve_urlExpirationTime_def
        DEFAULT_URL_EXPIRATION_TIME_def)
  have n: "containerName minimal_options = Some (Static ''uploads'')"
    by (simp add: minimal_options_def)
  from promisify_identity [of "''uploads''" "()" photo empty_service
      "this_containerName sample_adapter" emulator minimal_options no_env sample_adapter] c n
  have "this_containerName sample_adapter () photo empty_service = (Inr ''uploads'', empty_service)"
    by simp
  with c n show ?thesis by blast
qed




section \<open>Storing a file\<close>




text \<open>
  C4. When the adapter is constructed with no content settings, every upload sent by the
  store operation carries the content type of the file and the content disposition
  \<open>inline\<close>, and no cache control, MD5, content encoding or content language.
\<close>

theorem default_content_headers:
  assumes "constructor p options env = Inr this"
    and "contentSettings options = None"
    and "(t, UploadStream b bytes opts, r) \<in>
           set (sent (handleFileAsync p this req file (w, [])))"
  shows "blobHTTPHeaders opts =
     \<lparr>blobCacheControl = None, blobContentType = Some (mimetype file),
      blobContentMD5 = None, blobContentEncoding = None, blobContentLanguage = None,
      blobContentDisposition = Some ''inline''\<rparr>"
proof -
  have "this_contentSettings this = None"
    using constructor_fields(3) [OF assms(1)] assms(2) by simp
  with handleFileAsync_requests [OF assms(3)]
  have "blobHTTPHeaders opts = headers_of (default_contentSettings file)"
    by simp
  then show ?thesis
    by (simp add: headers_of_def default_contentSettings_def)
qed

theorem default_content_headers_witness:
  "\<exists>this opts.
     constructor emulator minimal_options no_env = Inr this \<and>
     contentSettings minimal_options = None \<and>
     (7, UploadStream photo_blob [1, 2, 3] opts, Inr Done) \<in>
       set (sent (handleFileAsync emulator this () photo (empty_service, []))) \<and>
     blobHTTPHeaders opts =
       \<lparr>blobCacheControl = None, blobContentType = Some ''image/png'',
        blobContentMD5 = None, blobContentEncoding = None, blobContentLanguage = None,
        blobContentDisposition = Some ''inline''\<rparr>"
proof -
  have c: "constructor emulator minimal_options no_env = Inr sample_adapter"
    using constructor_minimal [where u = UrlUndefined and l = None]
    by (simp add: minimal_options_def sample_adapter_def resolve_urlExpirationTime_def
        DEFAULT_URL_EXPIRATION_TIME_def)
  have n: "contentSettings minimal_options = None"
    by (simp add: minimal_options_def)
  have m: "(7, UploadStream photo_blob [1, 2, 3] photo_upload, Inr Done) \<in>
      set (sent (handleFileAsync emulator sample_adapter () photo (empty_service, [])))"
    by (simp add: photo_stored_default(2))
  from default_content_headers [OF c n m]
  have "blobHTTPHeaders photo_upload =
       \<lparr>blobCacheControl = None, blobContentType = Some ''image/png'',
        blobContentMD5 = None, blobContentEncoding = None, blobContentLanguage = None,
        blobContentDisposition = Some ''inline''\<rparr>"
    by (simp add: photo_def)
  with c n m show ?thesis by blast
qed

text \<open>
  C5. When the adapter is constructed with no metadata, every upload sent by the store
  operation carries no metadata at all (absent, not an empty map), and the metadata of a
  returned descriptor is the metadata the property fetch answered.
\<close>

theorem no_metadata_resolver:
  assumes "constructor p options env = Inr this"
    and "metadata options = None"
  shows "(\<forall>t b bytes opts r.
            (t, UploadStream b bytes opts, r) \<in>
              set (sent (handleFileAsync p this req file (w, []))) \<longrightarrow>
            upload_metadata opts = None) \<and>
         (\<forall>out. fst (handleFileAsync p this req file (w, [])) = Inr out \<longrightarrow>
            (\<exists>t b props.
               (t, GetProperties b, Inr (Properties props)) \<in>
                 set (sent (handleFileAsync p this req file (w, []))) \<and>
               MulterOutFile.metadata out = prop_metadata props))"
proof -
  have none: "this_metadata this = None"
    using constructor_fields(2) [OF assms(1)] assms(2) by simp
  have upload: "upload_metadata opts = None"
    if "(t, UploadStream b bytes opts, r) \<in> set (sent (handleFileAsync p this req file (w, [])))"
    for t b bytes opts r
    using handleFileAsync_requests [OF that] none by simp
  have fetched: "\<exists>t b props.
      (t, GetProperties b, Inr (Properties props)) \<in>
        set (sent (handleFileAsync p this req file (w, []))) \<and>
      MulterOutFile.metadata out = prop_metadata props"
    if "fst (handleFileAsync p this req file (w, [])) = Inr out" for out
  proof -
    from handleFileAsync_fulfilled [OF that] obtain pre t1 opts t2 props t3 b
      where log: "sent (handleFileAsync p this req file (w, [])) =
          pre @ [(t1, UploadStream b (stream file) opts, Inr Done),
                 (t2, GetProperties b, Inr (Properties props)),
                 (t3, GenerateSasUrl b (sas_request this t3), Inr (SasUrl (url out)))]"
        and out: "out =
          \<lparr>copied = (\<lambda>k. if k \<in> added_keys then None else spread file k),
           url = url out, etag = prop_etag props, metadata = prop_metadata props,
           containerName = MulterOutFile.containerName out,
           blobName = MulterOutFile.blobName out,
           blobType = prop_blobType props, blobSize = prop_contentLength props\<rparr>"
      by blast
    have "MulterOutFile.metadata out = prop_metadata props"
      by (subst out) simp
    moreover have "(t2, GetProperties b, Inr (Properties props)) \<in>
        set (sent (handleFileAsync p this req file (w, [])))"
      by (simp add: log)
    ultimately show ?thesis by blast
  qed
  from upload fetched show ?thesis by blast
qed

theorem no_metadata_resolver_witness:
  "\<exists>this out.
     constructor emulator minimal_options no_env = Inr this \<and>
     metadata minimal_options = None \<and>
     (7, UploadStream photo_blob [1, 2, 3] photo_upload, Inr Done) \<in>
       set (sent (handleFileAsync emulator this () photo (empty_service, []))) \<and>
     upload_metadata photo_upload = None \<and>
     fst (handleFileAsync emulator this () photo (empty_service, [])) = Inr out \<and>
     (7, GetProperties photo_blob, Inr (Properties photo_properties)) \<in>
       set (sent (handleFileAsync emulator this () photo (empty_service, []))) \<and>
     MulterOutFile.metadata out = prop_metadata photo_properties"
proof -
  have n: "metadata minimal_options = None"
    by (simp add: minimal_options_def)
  have m: "(7, UploadStream photo_blob [1, 2, 3] photo_upload, Inr Done) \<in>
      set (sent (handleFileAsync emulator sample_adapter () photo (empty_service, [])))"
    by (simp add: photo_stored_default(2))
  have g: "(7, GetProperties photo_blob, Inr (Properties photo_properties)) \<in>
      set (sent (handleFileAsync emulator sample_adapter () photo (empty_service, [])))"
    by (simp add: photo_stored_default(2))
  from no_metadata_resolver [OF constructor_sample n, of "()" photo empty_service] m
  have u: "upload_metadata photo_upload = None"
    by blast
  show ?thesis
    using constructor_sample n m g u photo_stored_default(1)
    by (simp add: photo_properties_def)
qed

text \<open>
  C9, as the claim states it, fails: the descriptor is built by spreading the file, which
  copies the own enumerable properties only, and by writing the seven fields after the
  spread. Multer defines \<open>stream\<close> as a non-enumerable property, so the descriptor of a
  stored file has no \<open>stream\<close>; and a file with an own property \<open>url\<close> gets a
  descriptor whose \<open>url\<close> is the signed URL, not the value the file had.
\<close>

theorem descriptor_drops_fields_counterexample:
  "\<exists>out out'.
     fst (handleFileAsync emulator sample_adapter () photo (empty_service, [])) = Inr out \<and>
     own_properties photo ''stream'' = Some (JBytes [1, 2, 3]) \<and>
     copied out ''stream'' = None \<and>
     fst (handleFileAsync emulator sample_adapter () photo_with_url (empty_service, [])) =
       Inr out' \<and>
     own_properties photo_with_url ''url'' = Some (JString ''mine'') \<and>
     copied out' ''url'' = None \<and>
     url out' = photo_url \<and>
     photo_url \<noteq> ''mine''"
  unfolding photo_stored_default(1) photo_with_url_stored
  by (simp add: own_properties_def spread_def photo_with_url_def photo_def added_keys_def
      photo_url_def)

text \<open>
  C9, amended. A descriptor returned by the store operation holds, besides the seven
  fields \<open>url\<close>, \<open>etag\<close>, \<open>metadata\<close>, \<open>containerName\<close>, \<open>blobName\<close>, \<open>blobType\<close> and
  \<open>blobSize\<close>, exactly the own enumerable properties of the input file that are not
  named like one of the seven, each with the value it has in the file. The container and
  blob names are the ones the resolvers fulfilled with and the upload was addressed to,
  the URL is the answer of the signing request, and the other four are the answer of the
  property fetch.
\<close>

theorem descriptor_fields:
  assumes "fst (handleFileAsync p this req file (w, [])) = Inr out"
  shows "(\<forall>k. copied out k =
            (if k \<in> added_keys \<or> k \<in> nonenumerable file then None
             else own_properties file k)) \<and>
    (\<exists>w1 w2.
       this_containerName this req file w = (Inr (MulterOutFile.containerName out), w1) \<and>
       this_blobName this req file w1 = (Inr (MulterOutFile.blobName out), w2)) \<and>
    (\<exists>pre t1 opts t2 props t3 so b.
       b = getBlockBlobClient
             (getContainerClient (this_blobServiceClient this) (MulterOutFile.containerName out))
             (MulterOutFile.blobName out) \<and>
       sent (handleFileAsync p this req file (w, [])) =
         pre @ [(t1, UploadStream b (stream file) opts, Inr Done),
                (t2, GetProperties b, Inr (Properties props)),
                (t3, GenerateSasUrl b so, Inr (SasUrl (url out)))] \<and>
       etag out = prop_etag props \<and>
       MulterOutFile.metadata out = prop_metadata props \<and>
       blobType out = prop_blobType props \<and>
       blobSize out = prop_contentLength props)"
proof -
  from handleFileAsync_fulfilled [OF assms] obtain w1 w2 pre t1 opts t2 props t3 b
    where names: "this_containerName this req file w = (Inr (MulterOutFile.containerName out), w1)"
        "this_blobName this req file w1 = (Inr (MulterOutFile.blobName out), w2)"
      and b: "b = getBlockBlobClient
          (getContainerClient (this_blobServiceClient this) (MulterOutFile.containerName out))
          (MulterOutFile.blobName out)"
      and log: "sent (handleFileAsync p this req file (w, [])) =
          pre @ [(t1, UploadStream b (stream file) opts, Inr Done),
                 (t2, GetProperties b, Inr (Properties props)),
                 (t3, GenerateSasUrl b (sas_request this t3), Inr (SasUrl (url out)))]"
      and out: "out =
          \<lparr>copied = (\<lambda>k. if k \<in> added_keys then None else spread file k),
           url = url out, etag = prop_etag props, metadata = prop_metadata props,
           containerName = MulterOutFile.containerName out,
           blobName = MulterOutFile.blobName out,
           blobType = prop_blobType props, blobSize = prop_contentLength props\<rparr>"
    by blast
  have kept: "copied out k =
      (if k \<in> added_keys \<or> k \<in> nonenumerable file then None else own_properties file k)"
    for k
    by (subst out) (simp add: spread_def)
  have fetched: "etag out = prop_etag props \<and> MulterOutFile.metadata out = prop_metadata props \<and>
      blobType out = prop_blobType props \<and> blobSize out = prop_contentLength props"
    by (subst out, subst (2) out, subst (3) out, subst (4) out) simp
  from kept names b log fetched show ?thesis by blast
qed

theorem descriptor_fields_witness:
  "\<exists>out.
     fst (handleFileAsync emulator sample_adapter () photo (empty_service, [])) = Inr out \<and>
     copied out ''originalname'' = Some (JString ''photo.png'') \<and>
     copied out ''mimetype'' = Some (JString ''image/png'') \<and>
     copied out ''fieldname'' = Some (JString ''avatar'') \<and>
     copied out ''encoding'' = Some (JString ''7bit'') \<and>
     copied out ''stream'' = None \<and>
     copied out ''size'' = None \<and>
     MulterOutFile.containerName out = ''uploads'' \<and>
     MulterOutFile.blobName out = ''7-3b241101-e2bb-4255-8caf-4136c566a962.png'' \<and>
     url out = photo_url \<and>
     etag out = Some ''0x1'' \<and>
     blobType out = Some ''BlockBlob'' \<and>
     blobSize out = Some 3"
proof -
  let ?out = "\<lparr>copied = (\<lambda>k. if k \<in> added_keys then None else spread photo k),
      url = photo_url, etag = Some ''0x1'', metadata = Some Map.empty,
      containerName = ''uploads'',
      blobName = ''7-3b241101-e2bb-4255-8caf-4136c566a962.png'',
      blobType = Some ''BlockBlob'', blobSize = Some 3\<rparr>"
  from descriptor_fields [OF photo_stored_default(1)]
  have "\<forall>k. copied ?out k =
      (if k \<in> added_keys \<or> k \<in> nonenumerable photo then None else own_properties photo k)"
    by blast
  then have "copied ?out ''originalname'' = Some (JString ''photo.png'') \<and>
      copied ?out ''mimetype'' = Some (JString ''image/png'') \<and>
      copied ?out ''fieldname'' = Some (JString ''avatar'') \<and>
      copied ?out ''encoding'' = Some (JString ''7bit'') \<and>
      copied ?out ''stream'' = None \<and>
      copied ?out ''size'' = None"
    by (simp add: added_keys_def own_properties_def photo_def)
  then show ?thesis
    using photo_stored_default(1) by simp
qed

section \<open>Container creation\<close>

text \<open>
  C7. For the store and the remove operation of a constructed adapter:
  \<^item> every container-creation request in the log is a \<open>createIfNotExists\<close>, sent only
    when auto-creation is not switched off, and carries no public access when the
    configured level is \<open>private\<close> (or unset), never the level \<open>private\<close> itself, and
    the configured level when it is \<open>blob\<close> or \<open>container\<close>;
  \<^item> with auto-creation not switched off, once the resolvers of the store operation
    (container name, blob name, content settings, metadata) have fulfilled, the first
    request the store sends is \<open>createIfNotExists\<close> for the resolved container with
    that access; if the library rejects it the store is rejected with the same error and
    nothing else is sent; if the library fulfils it, as it does for a container that
    already exists, the store goes on to upload the stream to the resolved blob;
  \<^item> likewise the remove operation, once container and blob name are resolved, first
    sends that \<open>createIfNotExists\<close>, is rejected with the library's error if there is
    one, and otherwise goes on to delete the blob and settles as the deletion does.
\<close>

theorem container_creation_access:
  assumes "constructor p options env = Inr this"
  shows
    "(\<forall>t cc a r.
        (t, CreateIfNotExists cc a, r) \<in>
          set (sent (handleFileAsync p this req file (w, []))) \<or>
        (t, CreateIfNotExists cc a, r) \<in>
          set (sent (removeFileAsync p this req file (w, []))) \<longrightarrow>
        autoCreateContainer options \<noteq> Some False \<and>
        a \<noteq> Some Private \<and>
        (containerAccessLevel options = None \<or> containerAccessLevel options = Some Private \<longrightarrow>
           a = None) \<and>
        (containerAccessLevel options = Some PublicBlob \<longrightarrow> a = Some PublicBlob) \<and>
        (containerAccessLevel options = Some PublicContainer \<longrightarrow> a = Some PublicContainer)) \<and>
     (\<forall>cn w1 bn w2 cs w3 md w4 created w5.
        autoCreateContainer options \<noteq> Some False \<longrightarrow>
        this_containerName this req file w = (Inr cn, w1) \<longrightarrow>
        this_blobName this req file w1 = (Inr bn, w2) \<longrightarrow>
        (this_contentSettings this = None \<and> cs = default_contentSettings file \<and> w3 = w2) \<or>
        (\<exists>f. this_contentSettings this = Some f \<and> f req file w2 = (Inr cs, w3)) \<longrightarrow>
        (this_metadata this = None \<and> md = None \<and> w4 = w3) \<or>
        (\<exists>f m. this_metadata this = Some f \<and> f req file w3 = (Inr m, w4) \<and> md = Some m) \<longrightarrow>
        createIfNotExists p (getContainerClient (this_blobServiceClient this) cn)
          (case containerAccessLevel options of
             Some PublicBlob \<Rightarrow> Some PublicBlob
           | Some PublicContainer \<Rightarrow> Some PublicContainer
           | _ \<Rightarrow> None) w4 = (created, w5) \<longrightarrow>
        (\<exists>rest.
           sent (handleFileAsync p this req file (w, [])) =
             (Date_now p w4,
              CreateIfNotExists (getContainerClient (this_blobServiceClient this) cn)
                (case containerAccessLevel options of
                   Some PublicBlob \<Rightarrow> Some PublicBlob
                 | Some PublicContainer \<Rightarrow> Some PublicContainer
                 | _ \<Rightarrow> None),
              map_sum id (\<lambda>_. Done) created) # rest \<and>
           (\<forall>e. created = Inl e \<longrightarrow>
              rest = [] \<and> fst (handleFileAsync p this req file (w, [])) = Inl e) \<and>
           (created = Inr () \<longrightarrow>
              (\<exists>uploaded rest'.
                 rest =
                   (Date_now p w5,
                    UploadStream
                      (getBlockBlobClient
                         (getContainerClient (this_blobServiceClient this) cn) bn)
                      (stream file)
                      \<lparr>upload_metadata = md, blobHTTPHeaders = headers_of cs\<rparr>,
                    uploaded) # rest')))) \<and>
     (\<forall>cn w1 bn w2 created w3 deleted w4.
        autoCreateContainer options \<noteq> Some False \<longrightarrow>
        this_containerName this req file w = (Inr cn, w1) \<longrightarrow>
        this_blobName this req file w1 = (Inr bn, w2) \<longrightarrow>
        createIfNotExists p (getContainerClient (this_blobServiceClient this) cn)
          (case containerAccessLevel options of
             Some PublicBlob \<Rightarrow> Some PublicBlob
           | Some PublicContainer \<Rightarrow> Some PublicContainer
           | _ \<Rightarrow> None) w2 = (created, w3) \<longrightarrow>
        deleteIfExists p
          (getBlockBlobClient (getContainerClient (this_blobServiceClient this) cn) bn) w3 =
          (deleted, w4) \<longrightarrow>
        (\<exists>rest.
           sent (removeFileAsync p this req file (w, [])) =
             (Date_now p w2,
              CreateIfNotExists (getContainerClient (this_blobServiceClient this) cn)
                (case containerAccessLevel options of
                   Some PublicBlob \<Rightarrow> Some PublicBlob
                 | Some PublicContainer \<Rightarrow> Some PublicContainer
                 | _ \<Rightarrow> None),
              map_sum id (\<lambda>_. Done) created) # rest \<and>
           (\<forall>e. created = Inl e \<longrightarrow>
              rest = [] \<and> fst (removeFileAsync p this req file (w, [])) = Inl e) \<and>
           (created = Inr () \<longrightarrow>
              rest =
                [(Date_now p w3,
                  DeleteIfExists
                    (getBlockBlobClient
                       (getContainerClient (this_blobServiceClient this) cn) bn),
                  map_sum id (\<lambda>_. Done) deleted)] \<and>
              fst (removeFileAsync p this req file (w, [])) = deleted)))"
proof -
  have level: "public_access (this_containerAccessLevel this) =
      (case containerAccessLevel options of
         Some PublicBlob \<Rightarrow> Some PublicBlob
       | Some PublicContainer \<Rightarrow> Some PublicContainer
       | _ \<Rightarrow> None)"
    using constructor_fields(5) [OF assms]
    by (simp add: public_access_def split: option.splits MASContainerAccessLevel.splits)
  have on: "this_autoCreateContainer this" if "autoCreateContainer options \<noteq> Some False"
    using constructor_fields(6) [OF assms] that by simp
  have logged: "autoCreateContainer options \<noteq> Some False \<and>
      a \<noteq> Some Private \<and>
      (containerAccessLevel options = None \<or> containerAccessLevel options = Some Private \<longrightarrow>
         a = None) \<and>
      (containerAccessLevel options = Some PublicBlob \<longrightarrow> a = Some PublicBlob) \<and>
      (containerAccessLevel options = Some PublicContainer \<longrightarrow> a = Some PublicContainer)"
    if "(t, CreateIfNotExists cc a, r) \<in>
          set (sent (handleFileAsync p this req file (w, []))) \<or>
        (t, CreateIfNotExists cc a, r) \<in>
          set (sent (removeFileAsync p this req file (w, [])))"
    for t cc a r
  proof -
    have "this_autoCreateContainer this \<and> a = public_access (this_containerAccessLevel this)"
      using that handleFileAsync_requests [of t "CreateIfNotExists cc a" r p this req "file" w]
        removeFileAsync_requests [of t "CreateIfNotExists cc a" r p this req "file" w]
      by blast
    then show ?thesis
      using constructor_fields(5,6) [OF assms]
      by (auto simp: public_access_def split: option.splits)
  qed
  have stored: "\<exists>rest.
      sent (handleFileAsync p this req file (w, [])) =
        (Date_now p w4,
         CreateIfNotExists (getContainerClient (this_blobServiceClient this) cn)
           (case containerAccessLevel options of
              Some PublicBlob \<Rightarrow> Some PublicBlob
            | Some PublicContainer \<Rightarrow> Some PublicContainer
            | _ \<Rightarrow> None),
         map_sum id (\<lambda>_. Done) created) # rest \<and>
      (\<forall>e. created = Inl e \<longrightarrow>
         rest = [] \<and> fst (handleFileAsync p this req file (w, [])) = Inl e) \<and>
      (created = Inr () \<longrightarrow>
         (\<exists>uploaded rest'.
            rest =
              (Date_now p w5,
               UploadStream
                 (getBlockBlobClient (getContainerClient (this_blobServiceClient this) cn) bn)
                 (stream file)
                 \<lparr>upload_metadata = md, blobHTTPHeaders = headers_of cs\<rparr>,
               uploaded) # rest'))"
    if auto: "autoCreateContainer options \<noteq> Some False"
      and cn: "this_containerName this req file w = (Inr cn, w1)"
      and bn: "this_blobName this req file w1 = (Inr bn, w2)"
      and cs: "(this_contentSettings this = None \<and> cs = default_contentSettings file \<and> w3 = w2) \<or>
          (\<exists>f. this_contentSettings this = Some f \<and> f req file w2 = (Inr cs, w3))"
      and md: "(this_metadata this = None \<and> md = None \<and> w4 = w3) \<or>
          (\<exists>f m. this_metadata this = Some f \<and> f req file w3 = (Inr m, w4) \<and> md = Some m)"
      and created: "createIfNotExists p (getContainerClient (this_blobServiceClient this) cn)
          (case containerAccessLevel options of
             Some PublicBlob \<Rightarrow> Some PublicBlob
           | Some PublicContainer \<Rightarrow> Some PublicContainer
           | _ \<Rightarrow> None) w4 = (created, w5)"
    for cn w1 bn w2 cs w3 md w4 created w5
  proof -
    note run = handleFileAsync_creates [OF on [OF auto] cn bn cs md created [folded level]]
    show ?thesis
    proof (cases created)
      case (Inl e)
      with run have "handleFileAsync p this req file (w, []) =
          (Inl e,
           (w5,
            [(Date_now p w4,
              CreateIfNotExists (getContainerClient (this_blobServiceClient this) cn)
                (public_access (this_containerAccessLevel this)), Inl e)]))"
        by simp
      then show ?thesis
        unfolding level using Inl by (simp add: sent_def)
    next
      case (Inr u)
      then have ok: "created = Inr ()"
        by simp
      from run [THEN conjunct2, THEN mp, OF ok] obtain uploaded rest'
        where "sent (handleFileAsync p this req file (w, [])) =
          (Date_now p w4,
           CreateIfNotExists (getContainerClient (this_blobServiceClient this) cn)
             (public_access (this_containerAccessLevel this)), Inr Done) #
          (Date_now p w5,
           UploadStream
             (getBlockBlobClient (getContainerClient (this_blobServiceClient this) cn) bn)
             (stream file)
             \<lparr>upload_metadata = md, blobHTTPHeaders = headers_of cs\<rparr>,
           uploaded) # rest'"
        by (elim exE)
      then show ?thesis
        unfolding level using ok by simp
    qed
  qed
  have removed: "\<exists>rest.
      sent (removeFileAsync p this req file (w, [])) =
        (Date_now p w2,
         CreateIfNotExists (getContainerClient (this_blobServiceClient this) cn)
           (case containerAccessLevel options of
              Some PublicBlob \<Rightarrow> Some PublicBlob
            | Some PublicContainer \<Rightarrow> Some PublicContainer
            | _ \<Rightarrow> None),
         map_sum id (\<lambda>_. Done) created) # rest \<and>
      (\<forall>e. created = Inl e \<longrightarrow>
         rest = [] \<and> fst (removeFileAsync p this req file (w, [])) = Inl e) \<and>
      (created = Inr () \<longrightarrow>
         rest =
           [(Date_now p w3,
             DeleteIfExists
               (getBlockBlobClient (getContainerClient (this_blobServiceClient this) cn) bn),
             map_sum id (\<lambda>_. Done) deleted)] \<and>
         fst (removeFileAsync p this req file (w, [])) = deleted)"
    if auto: "autoCreateContainer options \<noteq> Some False"
      and cn: "this_containerName this req file w = (Inr cn, w1)"
      and bn: "this_blobName this req file w1 = (Inr bn, w2)"
      and created: "createIfNotExists p (getContainerClient (this_blobServiceClient this) cn)
          (case containerAccessLevel options of
             Some PublicBlob \<Rightarrow> Some PublicBlob
           | Some PublicContainer \<Rightarrow> Some PublicContainer
           | _ \<Rightarrow> None) w2 = (created, w3)"
      and deleted: "deleteIfExists p
          (getBlockBlobClient (getContainerClient (this_blobServiceClient this) cn) bn) w3 =
          (deleted, w4)"
    for cn w1 bn w2 created w3 deleted w4
  proof -
    note run = removeFileAsync_creates [OF on [OF auto] cn bn created [folded level] deleted]
    show ?thesis
    proof (cases created)
      case (Inl e)
      with run have "removeFileAsync p this req file (w, []) =
          (Inl e,
           (w3,
            [(Date_now p w2,
              CreateIfNotExists (getContainerClient (this_blobServiceClient this) cn)
                (public_access (this_containerAccessLevel this)), Inl e)]))"
        by simp
      then show ?thesis
        unfolding level using Inl by (simp add: sent_def)
    next
      case (Inr u)
      then have ok: "created = Inr ()"
        by simp
      from run [THEN conjunct2, THEN mp, OF ok]
      show ?thesis
        unfolding level using ok by (simp add: sent_def)
    qed
  qed
  show ?thesis
    apply (rule conjI)
     apply (intro allI impI)
     apply (rule logged)
     apply assumption
    apply (rule conjI)
     apply (intro allI impI)
     apply (rule stored)
          apply assumption+
    apply (intro allI impI)
    apply (rule removed)
        apply assumption+
    done
qed

theorem container_creation_access_witness:
  "\<exists>this that.
     constructor emulator (minimal_options\<lparr>containerAccessLevel := Some PublicBlob\<rparr>) no_env =
       Inr this \<and>
     autoCreateContainer (minimal_options\<lparr>containerAccessLevel := Some PublicBlob\<rparr>) \<noteq>
       Some False \<and>
     this_containerName this () photo empty_service = (Inr ''uploads'', empty_service) \<and>
     this_blobName this () photo empty_service =
       (Inr ''7-3b241101-e2bb-4255-8caf-4136c566a962.png'', empty_service) \<and>
     this_contentSettings this = None \<and>
     this_metadata this = None \<and>
     createIfNotExists emulator uploads_client (Some PublicBlob) empty_service =
       (Inr (), empty_service\<lparr>containers := [''uploads'' \<mapsto> Some PublicBlob]\<rparr>) \<and>
     (\<exists>uploaded rest.
        sent (handleFileAsync emulator this () photo (empty_service, [])) =
          (7, CreateIfNotExists uploads_client (Some PublicBlob), Inr Done) #
          (7, UploadStream photo_blob [1, 2, 3] photo_upload, uploaded) # rest) \<and>
     constructor emulator (minimal_options\<lparr>containerAccessLevel := Some PublicContainer\<rparr>)
       no_env = Inr that \<and>
     this_containerName that () photo uploads_service = (Inr ''uploads'', uploads_service) \<and>
     this_blobName that () photo uploads_service =
       (Inr ''7-3b241101-e2bb-4255-8caf-4136c566a962.png'', uploads_service) \<and>
     containers uploads_service ''uploads'' = Some None \<and>
     createIfNotExists emulator uploads_client (Some PublicContainer) uploads_service =
       (Inr (), uploads_service) \<and>
     deleteIfExists emulator photo_blob uploads_service = (Inr (), uploads_service) \<and>
     sent (removeFileAsync emulator that () photo (uploads_service, [])) =
       [(7, CreateIfNotExists uploads_client (Some PublicContainer), Inr Done),
        (7, DeleteIfExists photo_blob, Inr Done)] \<and>
     fst (removeFileAsync emulator that () photo (uploads_service, [])) = Inr () \<and>
     hd (sent (handleFileAsync emulator sample_adapter () photo (uploads_service, []))) =
       (7, CreateIfNotExists uploads_client None, Inr Done) \<and>
     \<not> isl (fst (handleFileAsync emulator sample_adapter () photo (uploads_service, [])))"
proof -
  let ?blob_options = "minimal_options\<lparr>containerAccessLevel := Some PublicBlob\<rparr>"
  let ?first = "sample_adapter\<lparr>this_containerAccessLevel := PublicBlob\<rparr>"
  let ?container_options = "minimal_options\<lparr>containerAccessLevel := Some PublicContainer\<rparr>"
  let ?second = "sample_adapter\<lparr>this_containerAccessLevel := PublicContainer\<rparr>"
  let ?created = "empty_service\<lparr>containers := [''uploads'' \<mapsto> Some PublicBlob]\<rparr>"
  have c1: "constructor emulator ?blob_options no_env = Inr ?first"
    using constructor_minimal [where u = UrlUndefined and l = "Some PublicBlob"]
    by (simp add: minimal_options_def sample_adapter_def resolve_urlExpirationTime_def
        DEFAULT_URL_EXPIRATION_TIME_def)
  have c2: "constructor emulator ?container_options no_env = Inr ?second"
    using constructor_minimal [where u = UrlUndefined and l = "Some PublicContainer"]
    by (simp add: minimal_options_def sample_adapter_def resolve_urlExpirationTime_def
        DEFAULT_URL_EXPIRATION_TIME_def)
  have auto1: "autoCreateContainer ?blob_options \<noteq> Some False"
    by (simp add: minimal_options_def)
  have auto2: "autoCreateContainer ?container_options \<noteq> Some False"
    by (simp add: minimal_options_def)
  have name1: "this_containerName ?first () photo empty_service =
      (Inr ''uploads'', empty_service)"
    by (simp add: sample_adapter_def promisifyValue_def)
  have name2: "this_containerName ?second () photo uploads_service =
      (Inr ''uploads'', uploads_service)"
    by (simp add: sample_adapter_def promisifyValue_def)
  have blob1: "this_blobName ?first () photo empty_service =
      (Inr ''7-3b241101-e2bb-4255-8caf-4136c566a962.png'', empty_service)"
    by (simp add: sample_adapter_def generateBlobName_def emulator_fields photo_def
        empty_service_def number_to_string_7 emu_uuid extname_photo)
  have blob2: "this_blobName ?second () photo uploads_service =
      (Inr ''7-3b241101-e2bb-4255-8caf-4136c566a962.png'', uploads_service)"
    by (simp add: sample_adapter_def generateBlobName_def emulator_fields photo_def
        empty_service_def uploads_service_def number_to_string_7 emu_uuid extname_photo)
  have settings: "(this_contentSettings ?first = None \<and>
        default_contentSettings photo = default_contentSettings photo \<and>
        empty_service = empty_service) \<or>
      (\<exists>f. this_contentSettings ?first = Some f \<and>
         f () photo empty_service = (Inr (default_contentSettings photo), empty_service))"
    by (simp add: sample_adapter_def)
  have meta: "(this_metadata ?first = None \<and> None = None \<and> empty_service = empty_service) \<or>
      (\<exists>f m. this_metadata ?first = Some f \<and>
         f () photo empty_service = (Inr m, empty_service) \<and> None = Some m)"
    by (simp add: sample_adapter_def)
  have create1: "createIfNotExists emulator
      (getContainerClient (this_blobServiceClient ?first) ''uploads'')
      (case containerAccessLevel ?blob_options of
         Some PublicBlob \<Rightarrow> Some PublicBlob
       | Some PublicContainer \<Rightarrow> Some PublicContainer
       | _ \<Rightarrow> None) empty_service = (Inr (), ?created)"
    by (simp add: sample_adapter_def emulator_defs getContainerClient_def empty_service_def)
  have create2: "createIfNotExists emulator
      (getContainerClient (this_blobServiceClient ?second) ''uploads'')
      (case containerAccessLevel ?container_options of
         Some PublicBlob \<Rightarrow> Some PublicBlob
       | Some PublicContainer \<Rightarrow> Some PublicContainer
       | _ \<Rightarrow> None) uploads_service = (Inr (), uploads_service)"
    by (simp add: sample_adapter_def emulator_defs getContainerClient_def empty_service_def
        uploads_service_def)
  have delete2: "deleteIfExists emulator
      (getBlockBlobClient (getContainerClient (this_blobServiceClient ?second) ''uploads'')
         ''7-3b241101-e2bb-4255-8caf-4136c566a962.png'') uploads_service =
      (Inr (), uploads_service)"
    by (simp add: sample_adapter_def emulator_defs getContainerClient_def
        getBlockBlobClient_def empty_service_def uploads_service_def)
  have clients: "getContainerClient (this_blobServiceClient ?first) ''uploads'' = uploads_client"
    "getContainerClient (this_blobServiceClient ?second) ''uploads'' = uploads_client"
    "getBlockBlobClient uploads_client ''7-3b241101-e2bb-4255-8caf-4136c566a962.png'' =
       photo_blob"
    by (simp_all add: sample_adapter_def uploads_client_def photo_blob_def
        getContainerClient_def getBlockBlobClient_def)
  have upload: "\<lparr>upload_metadata = None,
      blobHTTPHeaders = headers_of (default_contentSettings photo)\<rparr> = photo_upload"
    "stream photo = [1, 2, 3]"
    by (simp_all add: photo_upload_def headers_of_def default_contentSettings_def photo_def)
  have clock: "Date_now emulator empty_service = 7" "Date_now emulator ?created = 7"
    "Date_now emulator uploads_service = 7"
    by (simp_all add: emulator_fields empty_service_def uploads_service_def)
  have level: "containerAccessLevel ?blob_options = Some PublicBlob"
    "containerAccessLevel ?container_options = Some PublicContainer"
    by simp_all
  from container_creation_access
    [OF c1, THEN conjunct2, THEN conjunct1, rule_format, OF auto1 name1 blob1 settings meta
      create1]
  have stored: "\<exists>uploaded rest.
      sent (handleFileAsync emulator ?first () photo (empty_service, [])) =
        (7, CreateIfNotExists uploads_client (Some PublicBlob), Inr Done) #
        (7, UploadStream photo_blob [1, 2, 3] photo_upload, uploaded) # rest"
    unfolding clients upload clock level by auto
  from container_creation_access
    [OF c2, THEN conjunct2, THEN conjunct2, rule_format, OF auto2 name2 blob2 create2 delete2]
  have removed: "sent (removeFileAsync emulator ?second () photo (uploads_service, [])) =
      [(7, CreateIfNotExists uploads_client (Some PublicContainer), Inr Done),
       (7, DeleteIfExists photo_blob, Inr Done)] \<and>
      fst (removeFileAsync emulator ?second () photo (uploads_service, [])) = Inr ()"
    unfolding clients upload clock level by auto
  have exists: "containers uploads_service ''uploads'' = Some None"
    by (simp add: uploads_service_def)
  show ?thesis
    apply (rule exI [of _ ?first])
    apply (rule exI [of _ ?second])
    apply (intro conjI)
    apply (rule c1)
    apply (rule auto1)
    apply (rule name1)
    apply (rule blob1)
    apply (simp add: sample_adapter_def)
    apply (simp add: sample_adapter_def)
    apply (rule create1 [unfolded clients level, simplified])
    apply (rule stored)
    apply (rule c2)
    apply (rule name2)
    apply (rule blob2)
    apply (rule exists)
    apply (rule create2 [unfolded clients level, simplified])
    apply (rule delete2 [unfolded clients])
    apply (rule removed [THEN conjunct1])
    apply (rule removed [THEN conjunct2])
    apply (rule photo_stored_again(2))
    apply (rule photo_stored_again(1))
    done
qed

text \<open>
  C10. With auto-creation not switched off (it is on by default), once the container
  and blob names are resolved the remove operation first sends \<open>createIfNotExists\<close> for
  the resolved container; if that is rejected the removal is rejected with the same
  error and nothing else is sent, and otherwise the blob deletion runs in the world the
  creation left. Conversely, a deletion is only ever sent after an accepted
  \<open>createIfNotExists\<close> for the container of the blob. On the in-memory service a removal
  against a missing container leaves the container created.
\<close>

theorem remove_creates_container:
  assumes ctor: "constructor p options env = Inr this"
    and auto: "autoCreateContainer options \<noteq> Some False"
  shows "(\<forall>c w1 b w2 created w3.
      this_containerName this req file w = (Inr c, w1) \<longrightarrow>
      this_blobName this req file w1 = (Inr b, w2) \<longrightarrow>
      createIfNotExists p (getContainerClient (this_blobServiceClient this) c)
        (if this_containerAccessLevel this = Private then None
         else Some (this_containerAccessLevel this)) w2 = (created, w3) \<longrightarrow>
      (case created of
         Inl e \<Rightarrow>
           removeFileAsync p this req file (w, []) =
             (Inl e,
              (w3,
               [(Date_now p w2,
                 CreateIfNotExists (getContainerClient (this_blobServiceClient this) c)
                   (if this_containerAccessLevel this = Private then None
                    else Some (this_containerAccessLevel this)),
                 Inl e)]))
       | Inr u \<Rightarrow>
           removeFileAsync p this req file (w, []) =
             (fst (deleteIfExists p
                (getBlockBlobClient (getContainerClient (this_blobServiceClient this) c) b) w3),
              (snd (deleteIfExists p
                (getBlockBlobClient (getContainerClient (this_blobServiceClient this) c) b) w3),
               [(Date_now p w2,
                 CreateIfNotExists (getContainerClient (this_blobServiceClient this) c)
                   (if this_containerAccessLevel this = Private then None
                    else Some (this_containerAccessLevel this)),
                 Inr Done),
                (Date_now p w3,
                 DeleteIfExists
                   (getBlockBlobClient (getContainerClient (this_blobServiceClient this) c) b),
                 map_sum id (\<lambda>_. Done)
                   (fst (deleteIfExists p
                     (getBlockBlobClient (getContainerClient (this_blobServiceClient this) c) b)
                     w3)))])))) \<and>
    (\<forall>t bb r.
      (t, DeleteIfExists bb, r) \<in> set (sent (removeFileAsync p this req file (w, []))) \<longrightarrow>
      (\<exists>w2 w3 w4 answer.
         createIfNotExists p (containerClient bb)
           (if this_containerAccessLevel this = Private then None
            else Some (this_containerAccessLevel this)) w2 = (Inr (), w3) \<and>
         deleteIfExists p bb w3 = (answer, w4) \<and>
         removeFileAsync p this req file (w, []) =
           (answer,
            (w4,
             [(Date_now p w2,
               CreateIfNotExists (containerClient bb)
                 (if this_containerAccessLevel this = Private then None
                  else Some (this_containerAccessLevel this)),
               Inr Done),
              (Date_now p w3, DeleteIfExists bb, map_sum id (\<lambda>_. Done) answer)]))))"
proof -
  have on: "this_autoCreateContainer this"
    using constructor_fields(6) [OF ctor] auto by simp
  have first: "(case created of
      Inl e \<Rightarrow>
        removeFileAsync p this req file (w, []) =
          (Inl e,
           (w3,
            [(Date_now p w2,
              CreateIfNotExists (getContainerClient (this_blobServiceClient this) c)
                (if this_containerAccessLevel this = Private then None
                 else Some (this_containerAccessLevel this)),
              Inl e)]))
    | Inr u \<Rightarrow>
        removeFileAsync p this req file (w, []) =
          (fst (deleteIfExists p
             (getBlockBlobClient (getContainerClient (this_blobServiceClient this) c) b) w3),
           (snd (deleteIfExists p
             (getBlockBlobClient (getContainerClient (this_blobServiceClient this) c) b) w3),
            [(Date_now p w2,
              CreateIfNotExists (getContainerClient (this_blobServiceClient this) c)
                (if this_containerAccessLevel this = Private then None
                 else Some (this_containerAccessLevel this)),
              Inr Done),
             (Date_now p w3,
              DeleteIfExists
                (getBlockBlobClient (getContainerClient (this_blobServiceClient this) c) b),
              map_sum id (\<lambda>_. Done)
                (fst (deleteIfExists p
                  (getBlockBlobClient (getContainerClient (this_blobServiceClient this) c) b)
                  w3)))])))"
    if name: "this_containerName this req file w = (Inr c, w1)"
      and blob: "this_blobName this req file w1 = (Inr b, w2)"
      and create: "createIfNotExists p (getContainerClient (this_blobServiceClient this) c)
        (if this_containerAccessLevel this = Private then None
         else Some (this_containerAccessLevel this)) w2 = (created, w3)"
    for c w1 b w2 created w3
  proof (cases created)
    case (Inl e)
    with on name blob create show ?thesis
      by (simp add: removeFileAsync_def this_getContainerClient_def await_def run_resolver_def
          send_def resolved_def call_createIfNotExists_def Let_def)
  next
    case (Inr u)
    with on name blob create show ?thesis
      by (simp add: removeFileAsync_def this_getContainerClient_def await_def run_resolver_def
          send_def resolved_def call_createIfNotExists_def call_deleteIfExists_def Let_def
          split: prod.splits)
  qed
  have second: "\<exists>w2 w3 w4 answer.
      createIfNotExists p (containerClient bb)
        (if this_containerAccessLevel this = Private then None
         else Some (this_containerAccessLevel this)) w2 = (Inr (), w3) \<and>
      deleteIfExists p bb w3 = (answer, w4) \<and>
      removeFileAsync p this req file (w, []) =
        (answer,
         (w4,
          [(Date_now p w2,
            CreateIfNotExists (containerClient bb)
              (if this_containerAccessLevel this = Private then None
               else Some (this_containerAccessLevel this)),
            Inr Done),
           (Date_now p w3, DeleteIfExists bb, map_sum id (\<lambda>_. Done) answer)]))"
    if "(t, DeleteIfExists bb, r) \<in> set (sent (removeFileAsync p this req file (w, [])))"
    for t bb r
    using removeFileAsync_deleted [OF on that] by (simp add: public_access_def)
  from first second show ?thesis by blast
qed

theorem remove_creates_container_witness:
  "constructor emulator minimal_options no_env = Inr sample_adapter \<and>
   autoCreateContainer minimal_options = None \<and>
   containers empty_service ''uploads'' = None \<and>
   sent (removeFileAsync emulator sample_adapter () photo (empty_service, [])) =
     [(7, CreateIfNotExists uploads_client None, Inr Done),
      (7, DeleteIfExists photo_blob, Inr Done)] \<and>
   containers (fst (snd (removeFileAsync emulator sample_adapter () photo (empty_service, []))))
     ''uploads'' = Some None"
proof -
  let ?created = "empty_service\<lparr>containers := [''uploads'' \<mapsto> None]\<rparr>"
  have auto: "autoCreateContainer minimal_options \<noteq> Some False"
    by (simp add: minimal_options_def)
  have name: "this_containerName sample_adapter () photo empty_service =
      (Inr ''uploads'', empty_service)"
    by (simp add: sample_adapter_def promisifyValue_def)
  have blob: "this_blobName sample_adapter () photo empty_service =
      (Inr ''7-3b241101-e2bb-4255-8caf-4136c566a962.png'', empty_service)"
    by (simp add: sample_adapter_def generateBlobName_def emulator_fields photo_def emu_uuid extname_photo
        empty_service_def number_to_string_7)
  have create: "createIfNotExists emulator
      (getContainerClient (this_blobServiceClient sample_adapter) ''uploads'')
      (if this_containerAccessLevel sample_adapter = Private then None
       else Some (this_containerAccessLevel sample_adapter)) empty_service =
      (Inr (), ?created)"
    by (simp add: sample_adapter_def emulator_defs getContainerClient_def empty_service_def)
  from remove_creates_container
    [OF constructor_sample auto, THEN conjunct1, rule_format, OF name blob create]
  have run: "removeFileAsync emulator sample_adapter () photo (empty_service, []) =
      (fst (deleteIfExists emulator
              (getBlockBlobClient
                 (getContainerClient (this_blobServiceClient sample_adapter) ''uploads'')
                 ''7-3b241101-e2bb-4255-8caf-4136c566a962.png'') ?created),
       (snd (deleteIfExists emulator
              (getBlockBlobClient
                 (getContainerClient (this_blobServiceClient sample_adapter) ''uploads'')
                 ''7-3b241101-e2bb-4255-8caf-4136c566a962.png'') ?created),
        [(Date_now emulator empty_service,
          CreateIfNotExists
            (getContainerClient (this_blobServiceClient sample_adapter) ''uploads'')
            (if this_containerAccessLevel sample_adapter = Private then None
             else Some (this_containerAccessLevel sample_adapter)),
          Inr Done),
         (Date_now emulator ?created,
          DeleteIfExists
            (getBlockBlobClient
               (getContainerClient (this_blobServiceClient sample_adapter) ''uploads'')
               ''7-3b241101-e2bb-4255-8caf-4136c566a962.png''),
          map_sum id (\<lambda>_. Done)
            (fst (deleteIfExists emulator
              (getBlockBlobClient
                 (getContainerClient (this_blobServiceClient sample_adapter) ''uploads'')
                 ''7-3b241101-e2bb-4255-8caf-4136c566a962.png'') ?created)))]))"
    by simp
  show ?thesis
    unfolding run sent_def
    using constructor_sample
    by (simp add: minimal_options_def sample_adapter_def emulator_defs empty_service_def
        getContainerClient_def getBlockBlobClient_def uploads_client_def photo_blob_def)
qed

end
